theory Spec2Isabelle
  imports Main "HOL-Library.Sublist"
begin

section \<open>Transport resolver (wagmi configuration)\<close>

subsection \<open>JavaScript values used by the configuration\<close>

text \<open>
  \<^verbatim>\<open>Boolean(s)\<close> on a string: only the empty string is falsy. The URL tiers are typed
  \<^verbatim>\<open>string[]\<close>, so no other falsy value can be an element.
\<close>

definition truthy_string :: "string \<Rightarrow> bool" where
  "truthy_string s = (s \<noteq> '''')"

text \<open>
  A JavaScript \<^verbatim>\<open>Set\<close> iterates in insertion order, and \<^verbatim>\<open>add\<close> of a value that is
  already a member changes nothing. The set is modelled by the list of its members in
  insertion order; \<^verbatim>\<open>new Set(xs)\<close> adds the elements of \<^verbatim>\<open>xs\<close> from left to right and
  \<^verbatim>\<open>Array.from\<close> reads the members back in insertion order.
\<close>

definition set_add :: "'a list \<Rightarrow> 'a \<Rightarrow> 'a list" where
  "set_add members x = (if x \<in> set members then members else members @ [x])"

fun add_all :: "'a list \<Rightarrow> 'a list \<Rightarrow> 'a list" where
  "add_all members [] = members"
| "add_all members (x # xs) = add_all (set_add members x) xs"

definition new_Set :: "'a list \<Rightarrow> 'a list" where
  "new_Set xs = add_all [] xs"

definition Array_from :: "'a list \<Rightarrow> 'a list" where
  "Array_from members = members"

subsection \<open>Chain metadata\<close>

record rpc_urls_entry =
  http :: "string list"

text \<open>
  The four tiers \<^verbatim>\<open>rpcUrls.interface\<close>, \<^verbatim>\<open>rpcUrls.default\<close>, \<^verbatim>\<open>rpcUrls.public\<close> and
  \<^verbatim>\<open>rpcUrls.fallback\<close>; each may be undefined.
\<close>

record rpc_urls =
  rpc_interface :: "rpc_urls_entry option"
  rpc_default :: "rpc_urls_entry option"
  rpc_public :: "rpc_urls_entry option"
  rpc_fallback :: "rpc_urls_entry option"

record chain_info =
  chain_id :: nat
  chain_name :: string
  rpcUrls :: rpc_urls

text \<open>\<^verbatim>\<open>tier?.http ?? []\<close>\<close>

definition http_or_empty :: "rpc_urls_entry option \<Rightarrow> string list" where
  "http_or_empty tier = (case tier of None \<Rightarrow> [] | Some e \<Rightarrow> http e)"

definition orderedRpcUrls :: "chain_info \<Rightarrow> string list" where
  "orderedRpcUrls chain =
     http_or_empty (rpc_interface (rpcUrls chain)) @
     http_or_empty (rpc_default (rpcUrls chain)) @
     http_or_empty (rpc_public (rpcUrls chain)) @
     http_or_empty (rpc_fallback (rpcUrls chain))"

definition orderedTransportUrls :: "chain_info \<Rightarrow> string list" where
  "orderedTransportUrls chain =
     Array_from (new_Set (filter truthy_string (orderedRpcUrls chain)))"

text \<open>
  The specification's reading of the result, written independently of the \<^verbatim>\<open>Set\<close>:
  keep the head of the list and delete every later copy of it.
\<close>

fun first_occurrences :: "'a list \<Rightarrow> 'a list" where
  "first_occurrences [] = []"
| "first_occurrences (x # xs) = x # first_occurrences (filter (\<lambda>y. y \<noteq> x) xs)"

text \<open>The truthy, de-duplicated content of one tier.\<close>

definition tier_urls :: "rpc_urls_entry option \<Rightarrow> string list" where
  "tier_urls tier = first_occurrences (filter truthy_string (http_or_empty tier))"


definition example_chain :: chain_info where
  "example_chain = \<lparr>chain_id = 1, chain_name = ''Ethereum'',
     rpcUrls = \<lparr>rpc_interface = Some \<lparr>http = [''https://a'', '''', ''https://b'']\<rparr>,
                rpc_default = None,
                rpc_public = Some \<lparr>http = [''https://b'', ''https://c'', ''https://a'']\<rparr>,
                rpc_fallback = Some \<lparr>http = [''https://d'', ''https://c'']\<rparr>\<rparr>\<rparr>"

section \<open>Failover transport and chain client factory\<close>

subsection \<open>Numbers in template strings\<close>

text \<open>The decimal rendering of a non-negative integer, as \<^verbatim>\<open>`${n}`\<close> and \<^verbatim>\<open>toString()\<close> give it.\<close>

definition digit_char :: "nat \<Rightarrow> char" where
  "digit_char d = ''0123456789'' ! d"

fun string_of_nat :: "nat \<Rightarrow> string" where
  "string_of_nat n =
     (if n < 10 then [digit_char n]
      else string_of_nat (n div 10) @ [digit_char (n mod 10)])"

declare string_of_nat.simps [simp del]

subsection \<open>Diagnostics\<close>

datatype js_error = Error string

record response =
  status :: nat

record log_extra =
  extra_chainId :: nat
  extra_url :: string

record log_tags =
  tags_file :: string
  tags_function :: string

text \<open>
  The calls a function makes to the logger, in order: \<^verbatim>\<open>logger.warn(fileName, functionName,
  message, {extra})\<close> and \<^verbatim>\<open>logger.error(error, {extra, tags})\<close>.
\<close>

datatype logger_call =
    Logger_warn string string string log_extra
  | Logger_error js_error log_extra log_tags

text \<open>
  The outcome of a response hook: whether it returned normally or threw, and the logger
  calls it made.
\<close>

type_synonym hook_outcome = "(js_error + unit) \<times> logger_call list"

text \<open>
  \<^verbatim>\<open>defaultOnFetchResponse\<close>. The predicate \<^verbatim>\<open>isTestnetChain\<close> is imported from another
  package and is a parameter. The body has no \<^verbatim>\<open>throw\<close>; the logger is fire-and-forget.
\<close>

definition defaultOnFetchResponse ::
  "(nat \<Rightarrow> bool) \<Rightarrow> response \<Rightarrow> chain_info \<Rightarrow> string \<Rightarrow> hook_outcome" where
  "defaultOnFetchResponse isTestnetChain response chain url =
     (if status response \<noteq> 200 then
        (let message = ''RPC provider returned non-200 status: '' @ string_of_nat (status response)
         in if isTestnetChain (chain_id chain)
            then (Inr (), [Logger_warn ''wagmiConfig.ts'' ''client'' message
                             \<lparr>extra_chainId = chain_id chain, extra_url = url\<rparr>])
            else (Inr (), [Logger_error (Error message)
                             \<lparr>extra_chainId = chain_id chain, extra_url = url\<rparr>
                             \<lparr>tags_file = ''wagmiConfig.ts'', tags_function = ''client''\<rparr>]))
      else (Inr (), []))"

subsection \<open>Client construction\<close>

text \<open>
  \<^verbatim>\<open>http(url, {onFetchResponse})\<close> and \<^verbatim>\<open>fallback(transports)\<close> of wagmi, and
  \<^verbatim>\<open>createClient\<close> of viem, are library constructors: they are modelled by the
  configuration they are given.
\<close>

record http_transport =
  transport_url :: string
  onFetchResponse :: "response \<Rightarrow> hook_outcome"

datatype transport = Fallback "http_transport list"

fun transports :: "transport \<Rightarrow> http_transport list" where
  "transports (Fallback ts) = ts"

record batch_options =
  multicall :: bool

record client_config =
  client_chain :: chain_info
  batch :: batch_options
  pollingInterval :: nat
  client_transport :: transport

definition http_tr :: "string \<Rightarrow> (response \<Rightarrow> hook_outcome) \<Rightarrow> http_transport" where
  "http_tr url hook = \<lparr>transport_url = url, onFetchResponse = hook\<rparr>"

definition fallback :: "http_transport list \<Rightarrow> transport" where
  "fallback ts = Fallback ts"

definition createClient :: "client_config \<Rightarrow> client_config" where
  "createClient config = config"

text \<open>
  The \<^verbatim>\<open>client({ chain })\<close> callback of \<^verbatim>\<open>createWagmiConfig\<close>. The first argument is the
  optional \<^verbatim>\<open>params.onFetchResponse\<close>, which defaults to \<^verbatim>\<open>defaultOnFetchResponse\<close>.
\<close>

definition createWagmiConfig_client ::
  "(nat \<Rightarrow> bool) \<Rightarrow> (response \<Rightarrow> chain_info \<Rightarrow> string \<Rightarrow> hook_outcome) option \<Rightarrow>
   chain_info \<Rightarrow> client_config" where
  "createWagmiConfig_client isTestnetChain params_onFetchResponse chain =
     (let hook = (case params_onFetchResponse of
                    None \<Rightarrow> defaultOnFetchResponse isTestnetChain
                  | Some h \<Rightarrow> h)
      in createClient
           \<lparr>client_chain = chain,
            batch = \<lparr>multicall = True\<rparr>,
            pollingInterval = 12000,
            client_transport =
              fallback (map (\<lambda>url. http_tr url (\<lambda>response. hook response chain url))
                            (orderedTransportUrls chain))\<rparr>)"

definition sepolia_is_testnet :: "nat \<Rightarrow> bool" where
  "sepolia_is_testnet n = (n = 11155111)"


section \<open>Swap orchestrator\<close>

subsection \<open>Trades\<close>

datatype trade_type = EXACT_INPUT | EXACT_OUTPUT

datatype trade_fill_type = Classic | UniswapX | UniswapXv2

text \<open>
  Modelled from the spec: the module \<^verbatim>\<open>state/routing/types\<close> that declares
  \<^verbatim>\<open>InterfaceTrade\<close> is missing. A trade carries a variant tag (classic, off-chain order,
  limit order), a trade-type tag, an input and an output amount (a currency and a raw
  non-negative integer quantity each) and, for classic trades, an optional swap fee.
\<close>

datatype trade_variant = ClassicTrade | DutchOrderTrade | LimitOrderTrade

type_synonym currency = string

record currency_amount =
  currency :: currency
  quotient :: nat

record percent =
  numerator :: nat
  denominator :: nat

record swap_fee =
  fee_recipient :: string
  fee_percent :: percent
  fee_amount :: nat

record interface_trade =
  variant :: trade_variant
  tradeType :: trade_type
  inputAmount :: currency_amount
  outputAmount :: currency_amount
  swapFee :: "swap_fee option"

text \<open>
  Modelled from the spec: \<^verbatim>\<open>isClassicTrade\<close> of the missing module
  \<^verbatim>\<open>state/routing/utils\<close>; it holds of a trade whose variant tag is classic. An absent
  trade is of no variant.
\<close>

definition isClassicTrade :: "interface_trade option \<Rightarrow> bool" where
  "isClassicTrade t = (case t of None \<Rightarrow> False | Some tr \<Rightarrow> variant tr = ClassicTrade)"

text \<open>
  Modelled from the spec: \<^verbatim>\<open>isLimitTrade\<close> of the missing module
  \<^verbatim>\<open>state/routing/utils\<close>; it holds of a trade whose variant tag is limit order.
\<close>

definition isLimitTrade :: "interface_trade option \<Rightarrow> bool" where
  "isLimitTrade t = (case t of None \<Rightarrow> False | Some tr \<Rightarrow> variant tr = LimitOrderTrade)"

text \<open>
  Modelled from the spec: \<^verbatim>\<open>isUniswapXTrade\<close> of the missing module
  \<^verbatim>\<open>state/routing/utils\<close>; it holds of the off-chain-order variant, of which a limit
  order is a specific sub-variant.
\<close>

definition isUniswapXTrade :: "interface_trade option \<Rightarrow> bool" where
  "isUniswapXTrade t =
     (case t of None \<Rightarrow> False
      | Some tr \<Rightarrow> variant tr = DutchOrderTrade \<or> variant tr = LimitOrderTrade)"

text \<open>
  Modelled from the spec: the trade method \<^verbatim>\<open>minimumAmountOut\<close> belongs to the missing
  trade classes. The minimum output is the expected output reduced by the slippage
  tolerance. Amounts are raw integer quantities, so the quotient is rounded down; the
  tolerance is a fraction with a positive denominator, of at most 100 percent.
\<close>

definition minimumAmountOut :: "interface_trade \<Rightarrow> percent \<Rightarrow> currency_amount" where
  "minimumAmountOut t slippage =
     \<lparr>currency = currency (outputAmount t),
      quotient = (quotient (outputAmount t) * (denominator slippage - numerator slippage))
                   div denominator slippage\<rparr>"

text \<open>
  Modelled from the spec: the trade method \<^verbatim>\<open>maximumAmountIn\<close> belongs to the missing
  trade classes. The maximum input is the expected input increased by the slippage
  tolerance, rounded down to a raw integer quantity.
\<close>

definition maximumAmountIn :: "interface_trade \<Rightarrow> percent \<Rightarrow> currency_amount" where
  "maximumAmountIn t slippage =
     \<lparr>currency = currency (inputAmount t),
      quotient = (quotient (inputAmount t) * (denominator slippage + numerator slippage))
                   div denominator slippage\<rparr>"

subsection \<open>Fee descriptor\<close>

record fee_options =
  fee :: percent
  recipient :: string

record flat_fee_options =
  amount :: nat
  flat_recipient :: string

text \<open>\<^verbatim>\<open>type UniversalRouterFeeField = { feeOptions } | { flatFeeOptions }\<close>\<close>

datatype universal_router_fee_field =
    FeeOptionsField fee_options
  | FlatFeeOptionsField flat_fee_options

text \<open>\<^verbatim>\<open>BigNumber.from\<close> on a raw non-negative amount keeps its value.\<close>

definition BigNumber_from :: "nat \<Rightarrow> nat" where
  "BigNumber_from n = n"

definition getUniversalRouterFeeFields ::
  "interface_trade option \<Rightarrow> universal_router_fee_field option" where
  "getUniversalRouterFeeFields trade =
     (if \<not> isClassicTrade trade then None
      else case trade of
        None \<Rightarrow> None
      | Some t \<Rightarrow>
         (case swapFee t of
            None \<Rightarrow> None
          | Some f \<Rightarrow>
             if tradeType t = EXACT_INPUT
             then Some (FeeOptionsField \<lparr>fee = fee_percent f, recipient = fee_recipient f\<rparr>)
             else Some (FlatFeeOptionsField
                          \<lparr>amount = BigNumber_from (fee_amount f),
                           flat_recipient = fee_recipient f\<rparr>)))"

text \<open>
  The options object handed to \<^verbatim>\<open>useUniversalRouterSwapCallback\<close>:
  \<^verbatim>\<open>{ slippageTolerance, permit, ...getUniversalRouterFeeFields(trade) }\<close>. Spreading
  \<^verbatim>\<open>undefined\<close> adds no key.
\<close>

type_synonym permit_signature = string

record swap_options =
  slippageTolerance :: percent
  permit :: "permit_signature option"
  feeOptions :: "fee_options option"
  flatFeeOptions :: "flat_fee_options option"

definition spread_fee_field ::
  "universal_router_fee_field option \<Rightarrow> swap_options \<Rightarrow> swap_options" where
  "spread_fee_field field opts =
     (case field of
        None \<Rightarrow> opts
      | Some (FeeOptionsField fo) \<Rightarrow> opts\<lparr>feeOptions := Some fo\<rparr>
      | Some (FlatFeeOptionsField ffo) \<Rightarrow> opts\<lparr>flatFeeOptions := Some ffo\<rparr>)"

definition universalRouterOptions ::
  "interface_trade option \<Rightarrow> percent \<Rightarrow> permit_signature option \<Rightarrow> swap_options" where
  "universalRouterOptions trade allowedSlippage permitSignature =
     spread_fee_field (getUniversalRouterFeeFields trade)
       \<lparr>slippageTolerance = allowedSlippage, permit = permitSignature,
        feeOptions = None, flatFeeOptions = None\<rparr>"

subsection \<open>Submission results\<close>

record transaction_response =
  hash :: string

record classic_result =
  classic_response :: transaction_response
  classic_deadline :: "nat option"

datatype uniswapx_fill_type = FillUniswapX | FillUniswapXv2

record uniswapx_response =
  orderHash :: string
  encodedOrder :: string
  order_deadline :: nat

record uniswapx_result =
  uniswapx_type :: uniswapx_fill_type
  uniswapx_response :: uniswapx_response

text \<open>
  \<^verbatim>\<open>SwapResult\<close>: what the universal-router callback or the UniswapX callback resolves
  to. Only the former produces \<^verbatim>\<open>TradeFillType.Classic\<close>.
\<close>

datatype swap_result =
    ClassicSwapResult classic_result
  | UniswapXSwapResult uniswapx_result

fun result_type :: "swap_result \<Rightarrow> trade_fill_type" where
  "result_type (ClassicSwapResult r) = Classic"
| "result_type (UniswapXSwapResult r) =
     (case uniswapx_type r of FillUniswapX \<Rightarrow> UniswapX | FillUniswapXv2 \<Rightarrow> UniswapXv2)"

subsection \<open>Recorded transactions\<close>

text \<open>
  \<^verbatim>\<open>TransactionInfo\<close> of type \<^verbatim>\<open>TransactionType.Swap\<close>; the constructor is the
  \<^verbatim>\<open>tradeType\<close> tag.
\<close>

datatype transaction_info =
    ExactInputSwapInfo
      (inputCurrencyId: string) (outputCurrencyId: string) (isUniswapXOrder: bool)
      (inputCurrencyAmountRaw: string)
      (expectedOutputCurrencyAmountRaw: string)
      (minimumOutputCurrencyAmountRaw: string)
  | ExactOutputSwapInfo
      (inputCurrencyId: string) (outputCurrencyId: string) (isUniswapXOrder: bool)
      (maximumInputCurrencyAmountRaw: string)
      (outputCurrencyAmountRaw: string)
      (expectedInputCurrencyAmountRaw: string)

fun info_tradeType :: "transaction_info \<Rightarrow> trade_type" where
  "info_tradeType (ExactInputSwapInfo _ _ _ _ _ _) = EXACT_INPUT"
| "info_tradeType (ExactOutputSwapInfo _ _ _ _ _ _) = EXACT_OUTPUT"

datatype transaction_status = Pending | Success | Failed | Canceled | Expired

datatype queued_order_status = Waiting | Submitted | ApprovalFailed | SubmissionFailed

datatype transaction_origin_type = Internal | External

datatype routing = CLASSIC | DUTCH_V2 | DUTCH_LIMIT | PRIORITY

record uniswapx_order_details =
  details_id :: string
  details_chainId :: nat
  details_from :: string
  details_status :: transaction_status
  addedTime :: nat
  transactionOriginType :: transaction_origin_type
  typeInfo :: transaction_info
  details_routing :: routing
  details_orderHash :: string
  queueStatus :: queued_order_status
  details_encodedOrder :: string
  expiry :: nat


subsection \<open>The environment of one invocation\<close>

record account =
  isConnected :: bool
  address :: "string option"
  account_chainId :: "nat option"

text \<open>
  What \<^verbatim>\<open>useSwapCallback\<close> reads from its arguments and from the hooks it calls. The
  hooks and helpers that are imported from other modules are fields: \<^verbatim>\<open>useSupportedChainId\<close>,
  \<^verbatim>\<open>isEVMChain\<close>, \<^verbatim>\<open>currencyId\<close>, the chain-switch operation returned by
  \<^verbatim>\<open>useSelectChain\<close> (only the truthiness of its result is inspected), the two submission
  primitives (each given the arguments of its hook and either rejecting with an error or
  resolving to its result) and the clock \<^verbatim>\<open>Date.now\<close>. The \<^verbatim>\<open>fiatValues\<close> argument is only
  forwarded to the submission hooks for analytics and is left out.
\<close>

record swap_env =
  trade :: "interface_trade option"
  allowedSlippage :: percent
  permitSignature :: "permit_signature option"
  useAccount :: account
  useSupportedChainId :: "nat option \<Rightarrow> nat option"
  swapChainId :: "nat option"
  isEVMChain :: "nat \<Rightarrow> bool"
  currencyId :: "currency \<Rightarrow> string"
  selectChain :: "nat \<Rightarrow> bool"
  useUniswapXSwapCallback :: "interface_trade option \<Rightarrow> percent \<Rightarrow> js_error + uniswapx_result"
  useUniversalRouterSwapCallback ::
    "interface_trade option \<Rightarrow> swap_options \<Rightarrow> js_error + classic_result"
  Date_now :: nat

text \<open>The calls that reach a collaborator during one invocation, in order.\<close>

datatype effect =
    SelectChain nat
  | UniswapXSwapCallback "interface_trade option" percent
  | UniversalRouterSwapCallback "interface_trade option" swap_options
  | AddClassicTransaction transaction_response transaction_info "nat option"
  | DispatchAddTransaction uniswapx_order_details

fun is_chain_switch :: "effect \<Rightarrow> bool" where
  "is_chain_switch (SelectChain _) = True"
| "is_chain_switch _ = False"

fun is_submission :: "effect \<Rightarrow> bool" where
  "is_submission (UniswapXSwapCallback _ _) = True"
| "is_submission (UniversalRouterSwapCallback _ _) = True"
| "is_submission _ = False"

fun is_tracking_add :: "effect \<Rightarrow> bool" where
  "is_tracking_add (AddClassicTransaction _ _ _) = True"
| "is_tracking_add _ = False"

fun is_store_append :: "effect \<Rightarrow> bool" where
  "is_store_append (DispatchAddTransaction _) = True"
| "is_store_append _ = False"

definition is_record_write :: "effect \<Rightarrow> bool" where
  "is_record_write e = (is_tracking_add e \<or> is_store_append e)"

subsection \<open>submitSwap\<close>

definition supportedConnectedChainId :: "swap_env \<Rightarrow> nat option" where
  "supportedConnectedChainId env = useSupportedChainId env (account_chainId (useAccount env))"

text \<open>
  JavaScript truthiness of the optional values the checks inspect: a number is falsy when
  it is \<^verbatim>\<open>undefined\<close> or 0, a string when it is \<^verbatim>\<open>undefined\<close> or empty. The value of
  a truthy optional is read with \<open>number_value\<close> and \<open>string_value\<close>; they are only
  applied behind the corresponding check.
\<close>

definition falsy_number :: "nat option \<Rightarrow> bool" where
  "falsy_number n = (n = None \<or> n = Some 0)"

definition falsy_string :: "string option \<Rightarrow> bool" where
  "falsy_string s = (s = None \<or> s = Some '''')"

definition number_value :: "nat option \<Rightarrow> nat" where
  "number_value n = (case n of None \<Rightarrow> 0 | Some v \<Rightarrow> v)"

definition string_value :: "string option \<Rightarrow> string" where
  "string_value s = (case s of None \<Rightarrow> '''' | Some v \<Rightarrow> v)"

text \<open>
  The \<^verbatim>\<open>if / else if\<close> chain at the head of the returned function. On success the trade,
  the wallet address and the swap chain are handed on, together with the calls made so
  far.
\<close>

definition checkPreconditions ::
  "swap_env \<Rightarrow> (js_error + interface_trade \<times> string \<times> nat) \<times> effect list" where
  "checkPreconditions env =
     (case trade env of
        None \<Rightarrow> (Inl (Error ''missing trade''), [])
      | Some t \<Rightarrow>
         if \<not> isConnected (useAccount env) \<or> falsy_string (address (useAccount env))
         then (Inl (Error ''wallet must be connected to swap''), [])
         else if falsy_number (swapChainId env)
         then (Inl (Error ''missing swap chainId''), [])
         else if \<not> isEVMChain env (number_value (swapChainId env))
         then (Inl (Error ''non EVM chain in legacy limits flow''), [])
         else if falsy_number (supportedConnectedChainId env)
                 \<or> supportedConnectedChainId env \<noteq> swapChainId env
         then
           (let correctChain = selectChain env (number_value (swapChainId env))
            in if \<not> correctChain
               then (Inl (Error ''wallet must be connected to correct chain to swap''),
                     [SelectChain (number_value (swapChainId env))])
               else (Inr (t, string_value (address (useAccount env)),
                          number_value (swapChainId env)),
                     [SelectChain (number_value (swapChainId env))]))
         else (Inr (t, string_value (address (useAccount env)),
                    number_value (swapChainId env)), []))"

text \<open>
  \<^verbatim>\<open>swapCallback = isUniswapXTrade(trade) ? uniswapXSwapCallback : universalRouterSwapCallback\<close>,
  each hook having been given its arguments; the call and its outcome.
\<close>

definition swapCallback :: "swap_env \<Rightarrow> effect \<times> (js_error + swap_result)" where
  "swapCallback env =
     (if isUniswapXTrade (trade env)
      then
        (let arg = (if isUniswapXTrade (trade env) then trade env else None)
         in (UniswapXSwapCallback arg (allowedSlippage env),
             map_sum (\<lambda>e. e) UniswapXSwapResult
               (useUniswapXSwapCallback env arg (allowedSlippage env))))
      else
        (let arg = (if isClassicTrade (trade env) then trade env else None);
             opts = universalRouterOptions (trade env) (allowedSlippage env) (permitSignature env)
         in (UniversalRouterSwapCallback arg opts,
             map_sum (\<lambda>e. e) ClassicSwapResult
               (useUniversalRouterSwapCallback env arg opts))))"

definition swapInfo :: "swap_env \<Rightarrow> interface_trade \<Rightarrow> swap_result \<Rightarrow> transaction_info" where
  "swapInfo env t result =
     (let inId = currencyId env (currency (inputAmount t));
          outId = currencyId env (currency (outputAmount t));
          isX = (result_type result = UniswapX \<or> result_type result = UniswapXv2)
      in if tradeType t = EXACT_INPUT
         then ExactInputSwapInfo inId outId isX
                (string_of_nat (quotient (inputAmount t)))
                (string_of_nat (quotient (outputAmount t)))
                (string_of_nat (quotient (minimumAmountOut t (allowedSlippage env))))
         else ExactOutputSwapInfo inId outId isX
                (string_of_nat (quotient (maximumAmountIn t (allowedSlippage env))))
                (string_of_nat (quotient (outputAmount t)))
                (string_of_nat (quotient (inputAmount t))))"

text \<open>
  \<^verbatim>\<open>BigNumber.prototype.toNumber\<close> of the ethers library gives the value as a JavaScript
  number when it is a safe integer and throws an overflow fault otherwise.
\<close>

definition MAX_SAFE_INTEGER :: nat where
  "MAX_SAFE_INTEGER = 9007199254740991"

definition BigNumber_toNumber :: "nat \<Rightarrow> js_error + nat" where
  "BigNumber_toNumber n = (if n \<le> MAX_SAFE_INTEGER then Inr n else Inl (Error ''overflow''))"

text \<open>\<^verbatim>\<open>result.deadline?.toNumber()\<close>\<close>

definition deadline_toNumber :: "nat option \<Rightarrow> js_error + nat option" where
  "deadline_toNumber deadline =
     (case deadline of
        None \<Rightarrow> Inr None
      | Some n \<Rightarrow> map_sum (\<lambda>e. e) Some (BigNumber_toNumber n))"

text \<open>
  The two recording paths after the submission primitive has resolved: whether the path
  completed or threw, and the record writes it made. The arguments of
  \<^verbatim>\<open>addClassicTransaction\<close> are evaluated before the call, so a deadline that does not
  convert throws before anything is written.
\<close>

definition recordTransaction ::
  "swap_env \<Rightarrow> interface_trade \<Rightarrow> string \<Rightarrow> nat \<Rightarrow> swap_result \<Rightarrow>
   (js_error + unit) \<times> effect list" where
  "recordTransaction env t a c result =
     (case result of
        ClassicSwapResult r \<Rightarrow>
          (case deadline_toNumber (classic_deadline r) of
             Inl e \<Rightarrow> (Inl e, [])
           | Inr d \<Rightarrow>
               (Inr (),
                [AddClassicTransaction (classic_response r) (swapInfo env t result) d]))
      | UniswapXSwapResult r \<Rightarrow>
          if isLimitTrade (Some t)
          then (Inr (),
                [DispatchAddTransaction
                  \<lparr>details_id = orderHash (uniswapx_response r),
                   details_chainId = c,
                   details_from = a,
                   details_status = Pending,
                   addedTime = Date_now env,
                   transactionOriginType = Internal,
                   typeInfo = swapInfo env t result,
                   details_routing = DUTCH_LIMIT,
                   details_orderHash = orderHash (uniswapx_response r),
                   queueStatus = Submitted,
                   details_encodedOrder = encodedOrder (uniswapx_response r),
                   expiry = order_deadline (uniswapx_response r)\<rparr>])
          else (Inr (), []))"

text \<open>
  The asynchronous function returned by \<^verbatim>\<open>useSwapCallback\<close>: its outcome (a thrown error
  on the left, the returned result on the right) and the calls it made.
\<close>

definition submitSwap :: "swap_env \<Rightarrow> (js_error + swap_result) \<times> effect list" where
  "submitSwap env =
     (case checkPreconditions env of
        (Inl e, fx) \<Rightarrow> (Inl e, fx)
      | (Inr (t, a, c), fx) \<Rightarrow>
         (case swapCallback env of
            (call, Inl e) \<Rightarrow> (Inl e, fx @ [call])
          | (call, Inr result) \<Rightarrow>
              (case recordTransaction env t a c result of
                 (Inl e, writes) \<Rightarrow> (Inl e, fx @ [call] @ writes)
               | (Inr u, writes) \<Rightarrow> (Inr result, fx @ [call] @ writes))))"


section \<open>Transaction status lookup\<close>

record interface_transaction_details =
  tx_hash :: string
  tx_status :: transaction_status

text \<open>
  Modelled from the spec: the hook \<^verbatim>\<open>useTransaction\<close> of the missing module
  \<^verbatim>\<open>state/transactions/hooks\<close> is the read path of the transaction store, a lookup by
  hash that yields the record or \<^verbatim>\<open>undefined\<close>; without a hash there is nothing to find.
\<close>

definition useTransaction ::
  "(string \<rightharpoonup> interface_transaction_details) \<Rightarrow> string option \<Rightarrow>
   interface_transaction_details option" where
  "useTransaction store h = (case h of None \<Rightarrow> None | Some x \<Rightarrow> store x)"

definition useSwapTransactionStatus ::
  "(string \<rightharpoonup> interface_transaction_details) \<Rightarrow> swap_result option \<Rightarrow>
   transaction_status option" where
  "useSwapTransactionStatus store swapResult =
     (let transaction =
            useTransaction store
              (case swapResult of
                 Some (ClassicSwapResult r) \<Rightarrow> Some (hash (classic_response r))
               | _ \<Rightarrow> None)
      in case transaction of
           None \<Rightarrow> None
         | Some tx \<Rightarrow> Some (tx_status tx))"

section \<open>Client to provider\<close>

record client_chain_info =
  viem_chain_id :: nat
  viem_chain_name :: string
  ensRegistry_address :: "string option"

text \<open>
  A viem client is an object: \<open>client_ref\<close> is its identity, which is what a \<^verbatim>\<open>WeakMap\<close>
  compares keys by. The transport is opaque.
\<close>

record client =
  client_ref :: nat
  viem_chain :: "client_chain_info option"
  viem_transport :: string

record network =
  network_chainId :: nat
  network_name :: string
  ensAddress :: "string option"

text \<open>
  \<^verbatim>\<open>new Web3Provider(transport, network)\<close> belongs to the ethers library. The constructor
  validates its arguments and throws when it rejects them; otherwise it makes a new
  object each time it runs. The validation is a parameter of the model: for a transport
  and a network it gives the error that is thrown, if any. \<open>provider_ref\<close> is the identity
  of the constructed object, which holds the arguments it was made from.
\<close>

type_synonym web3_provider_check = "string \<Rightarrow> network \<Rightarrow> js_error option"

record web3_provider =
  provider_ref :: nat
  provider_transport :: string
  provider_network :: network

text \<open>
  The module state: the \<^verbatim>\<open>WeakMap\<close> \<^verbatim>\<open>providers\<close>, keyed by client identity, and the
  number of \<^verbatim>\<open>Web3Provider\<close> objects constructed so far, which names the next one. An entry
  of a \<^verbatim>\<open>WeakMap\<close> can only vanish once its key is unreachable, so never for a client
  that is passed in again.
\<close>

record provider_state =
  providers :: "nat \<rightharpoonup> web3_provider"
  constructed :: nat

definition network_of :: "client \<Rightarrow> nat option \<Rightarrow> network option" where
  "network_of c chainId_arg =
     (case viem_chain c of
        Some ch \<Rightarrow>
          Some \<lparr>network_chainId = viem_chain_id ch, network_name = viem_chain_name ch,
                ensAddress = ensRegistry_address ch\<rparr>
      | None \<Rightarrow>
          if \<not> falsy_number chainId_arg
          then Some \<lparr>network_chainId = number_value chainId_arg, network_name = ''Unsupported'',
                     ensAddress = None\<rparr>
          else None)"

text \<open>
  The outcome of \<^verbatim>\<open>clientToProvider\<close> (a thrown error on the left; on the right the
  provider or \<^verbatim>\<open>undefined\<close>) and the module state after the call. When the constructor
  throws, \<^verbatim>\<open>providers.set\<close> is not reached.
\<close>

definition clientToProvider ::
  "web3_provider_check \<Rightarrow> client option \<Rightarrow> nat option \<Rightarrow> provider_state \<Rightarrow>
   (js_error + web3_provider option) \<times> provider_state" where
  "clientToProvider check client_arg chainId_arg st =
     (case client_arg of
        None \<Rightarrow> (Inr None, st)
      | Some c \<Rightarrow>
         (case network_of c chainId_arg of
            None \<Rightarrow> (Inr None, st)
          | Some net \<Rightarrow>
             if providers st (client_ref c) \<noteq> None
             then (Inr (providers st (client_ref c)), st)
             else
               (case check (viem_transport c) net of
                  Some e \<Rightarrow> (Inl e, st)
                | None \<Rightarrow>
                   (let provider = \<lparr>provider_ref = constructed st,
                                    provider_transport = viem_transport c,
                                    provider_network = net\<rparr>
                    in (Inr (Some provider),
                        \<lparr>providers = (providers st)(client_ref c \<mapsto> provider),
                         constructed = Suc (constructed st)\<rparr>)))))"

text \<open>Any sequence of further calls, applied to the module state from left to right.\<close>

fun run_calls ::
  "web3_provider_check \<Rightarrow> (client option \<times> nat option) list \<Rightarrow> provider_state \<Rightarrow>
   provider_state" where
  "run_calls check [] st = st"
| "run_calls check ((c, k) # calls) st =
     run_calls check calls (snd (clientToProvider check c k st))"


section \<open>Example inputs\<close>

definition one_percent :: percent where
  "one_percent = \<lparr>numerator = 1, denominator = 100\<rparr>"

definition example_fee :: swap_fee where
  "example_fee = \<lparr>fee_recipient = ''0xfee'', fee_percent = \<lparr>numerator = 25, denominator = 10000\<rparr>,
                   fee_amount = 7\<rparr>"

definition example_trade :: interface_trade where
  "example_trade = \<lparr>variant = ClassicTrade, tradeType = EXACT_INPUT,
                     inputAmount = \<lparr>currency = ''1-0xA'', quotient = 1000\<rparr>,
                     outputAmount = \<lparr>currency = ''1-0xB'', quotient = 500\<rparr>,
                     swapFee = Some example_fee\<rparr>"

definition example_classic_result :: classic_result where
  "example_classic_result = \<lparr>classic_response = \<lparr>hash = ''0xhash''\<rparr>, classic_deadline = Some 1800\<rparr>"

definition example_uniswapx_result :: uniswapx_result where
  "example_uniswapx_result =
     \<lparr>uniswapx_type = FillUniswapX,
      uniswapx_response = \<lparr>orderHash = ''0xorder'', encodedOrder = ''0xenc'', order_deadline = 1700\<rparr>\<rparr>"

text \<open>
  A connected wallet on chain 1, a classic exact-input trade on chain 1, submission
  primitives that succeed.
\<close>

definition example_env :: swap_env where
  "example_env =
     \<lparr>trade = Some example_trade,
      allowedSlippage = one_percent,
      permitSignature = None,
      useAccount = \<lparr>isConnected = True, address = Some ''0xabc'', account_chainId = Some 1\<rparr>,
      useSupportedChainId = (\<lambda>n. n),
      swapChainId = Some 1,
      isEVMChain = (\<lambda>n. True),
      currencyId = (\<lambda>c. c),
      selectChain = (\<lambda>n. True),
      useUniswapXSwapCallback = (\<lambda>t s. Inr example_uniswapx_result),
      useUniversalRouterSwapCallback = (\<lambda>t opts. Inr example_classic_result),
      Date_now = 1000\<rparr>"

text \<open>The same, with the wallet on chain 5 and a chain switch that succeeds or fails.\<close>

definition wrong_chain_env :: swap_env where
  "wrong_chain_env =
     example_env\<lparr>useAccount := \<lparr>isConnected = True, address = Some ''0xabc'',
                                account_chainId = Some 5\<rparr>\<rparr>"

definition switch_fails_env :: swap_env where
  "switch_fails_env = wrong_chain_env\<lparr>selectChain := (\<lambda>n. False)\<rparr>"

text \<open>
  The wallet is on chain 1, the chain of the swap, but \<^verbatim>\<open>useSupportedChainId\<close> does not
  recognise it; the chain switch fails.
\<close>

definition unsupported_chain_env :: swap_env where
  "unsupported_chain_env =
     example_env\<lparr>useSupportedChainId := (\<lambda>n. None), selectChain := (\<lambda>n. False)\<rparr>"

text \<open>The classic submission resolves with a deadline of 2 to the power 53.\<close>

definition overflow_env :: swap_env where
  "overflow_env =
     example_env\<lparr>useUniversalRouterSwapCallback :=
       (\<lambda>t opts. Inr \<lparr>classic_response = \<lparr>hash = ''0xhash''\<rparr>,
                        classic_deadline = Some 9007199254740992\<rparr>)\<rparr>"

definition disconnected_env :: swap_env where
  "disconnected_env =
     example_env\<lparr>useAccount := \<lparr>isConnected = False, address = None, account_chainId = None\<rparr>\<rparr>"

text \<open>The same as \<open>example_env\<close>, with a limit order.\<close>

definition limit_env :: swap_env where
  "limit_env = example_env\<lparr>trade := Some (example_trade\<lparr>variant := LimitOrderTrade, swapFee := None\<rparr>)\<rparr>"

definition example_store :: "string \<rightharpoonup> interface_transaction_details" where
  "example_store = [''0xhash'' \<mapsto> \<lparr>tx_hash = ''0xhash'', tx_status = Success\<rparr>]"

definition example_client :: client where
  "example_client = \<lparr>client_ref = 3, viem_chain = None, viem_transport = ''custom''\<rparr>"

definition empty_providers :: provider_state where
  "empty_providers = \<lparr>providers = Map.empty, constructed = 0\<rparr>"

text \<open>
  The check of ethers for its standard network name \<^verbatim>\<open>homestead\<close>, whose chain is 1: another
  chain under that name is rejected, unless it is 0.
\<close>

definition homestead_check :: web3_provider_check where
  "homestead_check transport net =
     (if network_name net = ''homestead'' \<and> network_chainId net \<noteq> 0 \<and> network_chainId net \<noteq> 1
      then Some (Error ''network chainId mismatch'')
      else None)"

definition clash_client :: client where
  "clash_client =
     \<lparr>client_ref = 7,
      viem_chain = Some \<lparr>viem_chain_id = 5, viem_chain_name = ''homestead'',
                          ensRegistry_address = None\<rparr>,
      viem_transport = ''custom''\<rparr>"

section \<open>Properties of the transport resolver\<close>

lemma add_all_append: "add_all acc (xs @ ys) = add_all (add_all acc xs) ys"
  by (induction xs arbitrary: acc) simp_all

lemma add_all_snoc:
  "add_all acc (xs @ [x]) =
     (if x \<in> set (add_all acc xs) then add_all acc xs else add_all acc xs @ [x])"
  by (simp add: add_all_append set_add_def)

lemma set_add_all: "set (add_all acc xs) = set acc \<union> set xs"
  by (induction xs arbitrary: acc) (auto simp: set_add_def)

lemma distinct_add_all: "distinct acc \<Longrightarrow> distinct (add_all acc xs)"
  by (induction xs arbitrary: acc) (auto simp: set_add_def)

lemma add_all_split:
  "add_all acc xs = acc @ filter (\<lambda>x. x \<notin> set acc) (add_all [] xs)"
proof (induction xs rule: rev_induct)
  case Nil
  show ?case by simp
next
  case (snoc x xs)
  show ?case
    using snoc.IH by (auto simp: add_all_snoc set_add_all)
qed

lemma filter_add_all:
  "filter P (add_all [] xs) = add_all [] (filter P xs)"
proof (induction xs rule: rev_induct)
  case Nil
  show ?case by simp
next
  case (snoc x xs)
  show ?case
    using snoc.IH by (auto simp: add_all_snoc set_add_all)
qed

lemma new_Set_Cons:
  "new_Set (x # xs) = x # new_Set (filter (\<lambda>y. y \<noteq> x) xs)"
proof -
  have "new_Set (x # xs) = add_all [x] xs"
    by (simp add: new_Set_def set_add_def)
  also have "\<dots> = [x] @ filter (\<lambda>y. y \<notin> set [x]) (add_all [] xs)"
    by (rule add_all_split)
  also have "\<dots> = x # new_Set (filter (\<lambda>y. y \<noteq> x) xs)"
    by (simp add: filter_add_all new_Set_def)
  finally show ?thesis .
qed

lemma new_Set_first_occurrences: "new_Set xs = first_occurrences xs"
proof (induction xs rule: first_occurrences.induct)
  case 1
  show ?case by (simp add: new_Set_def)
next
  case (2 x xs)
  then show ?case by (simp add: new_Set_Cons)
qed

lemma new_Set_append:
  "new_Set (xs @ ys) = new_Set xs @ filter (\<lambda>y. y \<notin> set xs) (new_Set ys)"
proof -
  have "new_Set (xs @ ys) = add_all (new_Set xs) ys"
    by (simp add: new_Set_def add_all_append)
  also have "\<dots> = new_Set xs @ filter (\<lambda>y. y \<notin> set (new_Set xs)) (add_all [] ys)"
    by (rule add_all_split)
  finally show ?thesis
    by (simp add: new_Set_def set_add_all)
qed

lemma subseq_add_all: "subseq (add_all acc xs) (acc @ xs)"
proof (induction xs rule: rev_induct)
  case Nil
  show ?case by simp
next
  case (snoc x xs)
  have drop: "subseq (acc @ xs) ((acc @ xs) @ [x])"
    using list_emb_append_mono [of "(=)" "acc @ xs" "acc @ xs" "[]" "[x]"] by simp
  have keep: "subseq (add_all acc xs @ [x]) ((acc @ xs) @ [x])"
    using snoc.IH by (rule list_emb_append_mono) simp
  show ?case
  proof (cases "x \<in> set (add_all acc xs)")
    case True
    then show ?thesis
      using snoc.IH drop by (auto simp: add_all_snoc intro: subseq_order.order_trans)
  next
    case False
    then show ?thesis
      using keep by (simp add: add_all_snoc)
  qed
qed

lemma set_new_Set: "set (new_Set xs) = set xs"
  by (simp add: new_Set_def set_add_all)

lemma distinct_new_Set: "distinct (new_Set xs)"
  by (simp add: new_Set_def distinct_add_all)

lemma subseq_new_Set: "subseq (new_Set xs) xs"
  using subseq_add_all [of "[]" xs] by (simp add: new_Set_def)


lemma tier_urls_new_Set: "tier_urls tier = new_Set (filter truthy_string (http_or_empty tier))"
  by (simp add: tier_urls_def new_Set_first_occurrences)

text \<open>
  Claim C6. For every chain metadata, \<^verbatim>\<open>orderedTransportUrls\<close> returns one list with no
  duplicate URL and no empty entry, holding exactly the non-empty URLs of the four tiers.
  It is the concatenation interface, default, public, fallback with every later copy of
  a URL deleted (each duplicate collapsed to its first occurrence), hence a subsequence
  of that concatenation (source order is kept within and across tiers). Tier by tier: the
  URLs of the interface tier come first, then those of the default tier that are new,
  then the new ones of the public tier, then the new ones of the fallback tier.
\<close>

theorem orderedTransportUrls_unique_ordered:
  "distinct (orderedTransportUrls chain) \<and>
   set (orderedTransportUrls chain) = {u \<in> set (orderedRpcUrls chain). u \<noteq> ''''} \<and>
   orderedTransportUrls chain =
     first_occurrences (filter truthy_string (orderedRpcUrls chain)) \<and>
   subseq (orderedTransportUrls chain) (orderedRpcUrls chain) \<and>
   orderedTransportUrls chain =
     tier_urls (rpc_interface (rpcUrls chain)) @
     filter (\<lambda>u. u \<notin> set (tier_urls (rpc_interface (rpcUrls chain))))
       (tier_urls (rpc_default (rpcUrls chain))) @
     filter (\<lambda>u. u \<notin> set (tier_urls (rpc_interface (rpcUrls chain))) \<and>
                 u \<notin> set (tier_urls (rpc_default (rpcUrls chain))))
       (tier_urls (rpc_public (rpcUrls chain))) @
     filter (\<lambda>u. u \<notin> set (tier_urls (rpc_interface (rpcUrls chain))) \<and>
                 u \<notin> set (tier_urls (rpc_default (rpcUrls chain))) \<and>
                 u \<notin> set (tier_urls (rpc_public (rpcUrls chain))))
       (tier_urls (rpc_fallback (rpcUrls chain)))"
proof -
  let ?all = "orderedRpcUrls chain"
  have d: "distinct (orderedTransportUrls chain)"
    by (simp add: orderedTransportUrls_def Array_from_def distinct_new_Set)
  have s: "set (orderedTransportUrls chain) = {u \<in> set ?all. u \<noteq> ''''}"
    by (auto simp: orderedTransportUrls_def Array_from_def set_new_Set truthy_string_def)
  have f: "orderedTransportUrls chain = first_occurrences (filter truthy_string ?all)"
    by (simp add: orderedTransportUrls_def Array_from_def new_Set_first_occurrences)
  have "subseq (new_Set (filter truthy_string ?all)) (filter truthy_string ?all)"
    by (rule subseq_new_Set)
  moreover have "subseq (filter truthy_string ?all) ?all"
    by simp
  ultimately have q: "subseq (orderedTransportUrls chain) ?all"
    unfolding orderedTransportUrls_def Array_from_def by (rule subseq_order.order_trans)
  have t: "orderedTransportUrls chain =
     tier_urls (rpc_interface (rpcUrls chain)) @
     filter (\<lambda>u. u \<notin> set (tier_urls (rpc_interface (rpcUrls chain))))
       (tier_urls (rpc_default (rpcUrls chain))) @
     filter (\<lambda>u. u \<notin> set (tier_urls (rpc_interface (rpcUrls chain))) \<and>
                 u \<notin> set (tier_urls (rpc_default (rpcUrls chain))))
       (tier_urls (rpc_public (rpcUrls chain))) @
     filter (\<lambda>u. u \<notin> set (tier_urls (rpc_interface (rpcUrls chain))) \<and>
                 u \<notin> set (tier_urls (rpc_default (rpcUrls chain))) \<and>
                 u \<notin> set (tier_urls (rpc_public (rpcUrls chain))))
       (tier_urls (rpc_fallback (rpcUrls chain)))"
    by (simp add: orderedTransportUrls_def Array_from_def orderedRpcUrls_def
        tier_urls_new_Set new_Set_append set_new_Set conj_commute conj_left_commute)
  from d s f q t show ?thesis by blast
qed

theorem orderedTransportUrls_unique_ordered_witness:
  "orderedTransportUrls example_chain = [''https://a'', ''https://b'', ''https://c'', ''https://d''] \<and>
   distinct (orderedTransportUrls example_chain) \<and>
   subseq (orderedTransportUrls example_chain) (orderedRpcUrls example_chain)"
proof -
  have v: "orderedTransportUrls example_chain =
      [''https://a'', ''https://b'', ''https://c'', ''https://d'']"
    by (simp add: orderedTransportUrls_def Array_from_def orderedRpcUrls_def new_Set_def
        set_add_def http_or_empty_def example_chain_def truthy_string_def)
  from orderedTransportUrls_unique_ordered [of example_chain]
  have "distinct (orderedTransportUrls example_chain) \<and>
        subseq (orderedTransportUrls example_chain) (orderedRpcUrls example_chain)"
    by blast
  with v show ?thesis by blast
qed

section \<open>Properties of the swap orchestrator\<close>

lemma checkPreconditions_Inr:
  assumes "checkPreconditions env = (Inr (t, a, c), pfx)"
  shows "trade env = Some t \<and> a = string_value (address (useAccount env)) \<and>
         c = number_value (swapChainId env) \<and>
         isConnected (useAccount env) \<and> \<not> falsy_string (address (useAccount env)) \<and>
         \<not> falsy_number (swapChainId env) \<and> isEVMChain env c \<and>
         (if falsy_number (supportedConnectedChainId env)
               \<or> supportedConnectedChainId env \<noteq> swapChainId env
          then selectChain env c \<and> pfx = [SelectChain c]
          else pfx = [])"
  using assms
  by (auto simp: checkPreconditions_def Let_def split: option.splits if_splits)

lemma checkPreconditions_pass:
  assumes "trade env = Some t" "isConnected (useAccount env)"
    "\<not> falsy_string (address (useAccount env))"
    "swapChainId env = Some c" "c \<noteq> 0" "isEVMChain env c"
  shows "checkPreconditions env =
     (if supportedConnectedChainId env \<noteq> Some c
      then (if \<not> selectChain env c
            then (Inl (Error ''wallet must be connected to correct chain to swap''), [SelectChain c])
            else (Inr (t, string_value (address (useAccount env)), c), [SelectChain c]))
      else (Inr (t, string_value (address (useAccount env)), c), []))"
  using assms
  by (auto simp: checkPreconditions_def Let_def falsy_number_def number_value_def)

lemma swapCallback_is_submission: "is_submission (fst (swapCallback env))"
  by (simp add: swapCallback_def Let_def)

lemma recordTransaction_writes:
  "\<forall>e \<in> set (snd (recordTransaction env t a c result)). is_record_write e"
  by (simp add: recordTransaction_def is_record_write_def
      split: swap_result.split sum.split)

lemma filter_record_writes:
  assumes "\<forall>e \<in> set ws. is_record_write e"
  shows "filter is_chain_switch ws = [] \<and> filter is_submission ws = []"
proof -
  have "\<And>e. is_record_write e \<Longrightarrow> \<not> is_chain_switch e \<and> \<not> is_submission e"
    by (case_tac e) (simp_all add: is_record_write_def)
  with assms show ?thesis
    by (simp add: filter_empty_conv)
qed

text \<open>
  Claim C1, as amended. The five checks of \<^verbatim>\<open>submitSwap\<close> run in the fixed order trade
  present, wallet connected with a non-empty address, swap chain present, swap chain EVM,
  connected chain equal to the swap chain or switched to it. The first check that fails
  decides the outcome, whatever the later ones would say, and each throws an error of its
  own. When one of the first four fails, no collaborator has been called at all: no
  chain-switch request, no submission, no record write. The fifth can only fail through
  the chain-switch request itself: exactly that one request has been made, and no
  submission and no record write.
\<close>

theorem submitSwap_precondition_failures:
  "(trade env = None \<longrightarrow> submitSwap env = (Inl (Error ''missing trade''), [])) \<and>
   (trade env \<noteq> None \<and>
    (\<not> isConnected (useAccount env) \<or> falsy_string (address (useAccount env))) \<longrightarrow>
      submitSwap env = (Inl (Error ''wallet must be connected to swap''), [])) \<and>
   (trade env \<noteq> None \<and>
    isConnected (useAccount env) \<and> \<not> falsy_string (address (useAccount env)) \<and>
    falsy_number (swapChainId env) \<longrightarrow>
      submitSwap env = (Inl (Error ''missing swap chainId''), [])) \<and>
   (trade env \<noteq> None \<and>
    isConnected (useAccount env) \<and> \<not> falsy_string (address (useAccount env)) \<and>
    \<not> falsy_number (swapChainId env) \<and>
    \<not> isEVMChain env (number_value (swapChainId env)) \<longrightarrow>
      submitSwap env = (Inl (Error ''non EVM chain in legacy limits flow''), [])) \<and>
   (trade env \<noteq> None \<and>
    isConnected (useAccount env) \<and> \<not> falsy_string (address (useAccount env)) \<and>
    \<not> falsy_number (swapChainId env) \<and>
    isEVMChain env (number_value (swapChainId env)) \<and>
    (falsy_number (supportedConnectedChainId env)
       \<or> supportedConnectedChainId env \<noteq> swapChainId env) \<and>
    \<not> selectChain env (number_value (swapChainId env)) \<longrightarrow>
      submitSwap env =
        (Inl (Error ''wallet must be connected to correct chain to swap''),
         [SelectChain (number_value (swapChainId env))])) \<and>
   distinct [Error ''missing trade'', Error ''wallet must be connected to swap'',
             Error ''missing swap chainId'', Error ''non EVM chain in legacy limits flow'',
             Error ''wallet must be connected to correct chain to swap'']"
proof -
  have c1: "trade env = None \<longrightarrow> submitSwap env = (Inl (Error ''missing trade''), [])"
    by (simp add: submitSwap_def checkPreconditions_def)
  have c2: "trade env \<noteq> None \<and>
    (\<not> isConnected (useAccount env) \<or> falsy_string (address (useAccount env))) \<longrightarrow>
      submitSwap env = (Inl (Error ''wallet must be connected to swap''), [])"
    by (auto simp: submitSwap_def checkPreconditions_def)
  have c3: "trade env \<noteq> None \<and>
    isConnected (useAccount env) \<and> \<not> falsy_string (address (useAccount env)) \<and>
    falsy_number (swapChainId env) \<longrightarrow>
      submitSwap env = (Inl (Error ''missing swap chainId''), [])"
    by (auto simp: submitSwap_def checkPreconditions_def)
  have c4: "trade env \<noteq> None \<and>
    isConnected (useAccount env) \<and> \<not> falsy_string (address (useAccount env)) \<and>
    \<not> falsy_number (swapChainId env) \<and>
    \<not> isEVMChain env (number_value (swapChainId env)) \<longrightarrow>
      submitSwap env = (Inl (Error ''non EVM chain in legacy limits flow''), [])"
    by (auto simp: submitSwap_def checkPreconditions_def)
  have c5: "trade env \<noteq> None \<and>
    isConnected (useAccount env) \<and> \<not> falsy_string (address (useAccount env)) \<and>
    \<not> falsy_number (swapChainId env) \<and>
    isEVMChain env (number_value (swapChainId env)) \<and>
    (falsy_number (supportedConnectedChainId env)
       \<or> supportedConnectedChainId env \<noteq> swapChainId env) \<and>
    \<not> selectChain env (number_value (swapChainId env)) \<longrightarrow>
      submitSwap env =
        (Inl (Error ''wallet must be connected to correct chain to swap''),
         [SelectChain (number_value (swapChainId env))])"
    by (auto simp: submitSwap_def checkPreconditions_def Let_def)
  have d: "distinct [Error ''missing trade'', Error ''wallet must be connected to swap'',
             Error ''missing swap chainId'', Error ''non EVM chain in legacy limits flow'',
             Error ''wallet must be connected to correct chain to swap'']"
    by simp
  from c1 c2 c3 c4 c5 d show ?thesis by blast
qed

theorem submitSwap_precondition_failures_witness:
  "submitSwap (example_env\<lparr>trade := None\<rparr>) = (Inl (Error ''missing trade''), []) \<and>
   submitSwap disconnected_env = (Inl (Error ''wallet must be connected to swap''), []) \<and>
   submitSwap (example_env\<lparr>swapChainId := None\<rparr>) = (Inl (Error ''missing swap chainId''), []) \<and>
   submitSwap (example_env\<lparr>isEVMChain := (\<lambda>n. False)\<rparr>) =
     (Inl (Error ''non EVM chain in legacy limits flow''), []) \<and>
   submitSwap switch_fails_env =
     (Inl (Error ''wallet must be connected to correct chain to swap''), [SelectChain 1])"
proof -
  have a: "submitSwap (example_env\<lparr>trade := None\<rparr>) = (Inl (Error ''missing trade''), [])"
    using submitSwap_precondition_failures [of "example_env\<lparr>trade := None\<rparr>"]
    by simp
  have b: "submitSwap disconnected_env = (Inl (Error ''wallet must be connected to swap''), [])"
    using submitSwap_precondition_failures [of disconnected_env]
    by (simp add: disconnected_env_def example_env_def)
  have c: "submitSwap (example_env\<lparr>swapChainId := None\<rparr>) =
      (Inl (Error ''missing swap chainId''), [])"
    using submitSwap_precondition_failures [of "example_env\<lparr>swapChainId := None\<rparr>"]
    by (simp add: example_env_def falsy_number_def falsy_string_def)
  have d: "submitSwap (example_env\<lparr>isEVMChain := (\<lambda>n. False)\<rparr>) =
     (Inl (Error ''non EVM chain in legacy limits flow''), [])"
    using submitSwap_precondition_failures [of "example_env\<lparr>isEVMChain := (\<lambda>n. False)\<rparr>"]
    by (simp add: example_env_def falsy_number_def falsy_string_def)
  have e: "submitSwap switch_fails_env =
     (Inl (Error ''wallet must be connected to correct chain to swap''), [SelectChain 1])"
    using submitSwap_precondition_failures [of switch_fails_env]
    by (simp add: switch_fails_env_def wrong_chain_env_def example_env_def falsy_number_def
        falsy_string_def number_value_def supportedConnectedChainId_def)
  from a b c d e show ?thesis by blast
qed

text \<open>
  With a connected wallet on chain 5, a swap on chain 1 and a chain switch that fails,
  \<^verbatim>\<open>submitSwap\<close> throws the fifth error after the chain-switch operation has been called.
\<close>

theorem submitSwap_failed_switch_counterexample:
  "fst (submitSwap switch_fails_env) =
     Inl (Error ''wallet must be connected to correct chain to swap'') \<and>
   filter is_chain_switch (snd (submitSwap switch_fails_env)) = [SelectChain 1]"
  by (simp add: submitSwap_def checkPreconditions_def Let_def switch_fails_env_def
      wrong_chain_env_def example_env_def falsy_number_def falsy_string_def number_value_def
      supportedConnectedChainId_def)


lemma submitSwap_after_checks:
  assumes "checkPreconditions env = (Inr (t, a, c), pfx)"
  shows "fst (submitSwap env) =
           (case snd (swapCallback env) of
              Inl e \<Rightarrow> Inl e
            | Inr result \<Rightarrow>
                (case fst (recordTransaction env t a c result) of
                   Inl e \<Rightarrow> Inl e
                 | Inr u \<Rightarrow> Inr result)) \<and>
         snd (submitSwap env) =
           pfx @ fst (swapCallback env) #
             (case snd (swapCallback env) of
                Inl e \<Rightarrow> []
              | Inr result \<Rightarrow> snd (recordTransaction env t a c result))"
proof -
  obtain call out where sc: "swapCallback env = (call, out)"
    by (cases "swapCallback env")
  show ?thesis
  proof (cases out)
    case (Inl e)
    with sc assms have "submitSwap env = (Inl e, pfx @ [call])"
      by (simp add: submitSwap_def)
    with Inl sc show ?thesis by simp
  next
    case (Inr result)
    obtain ro ws where rt: "recordTransaction env t a c result = (ro, ws)"
      by (cases "recordTransaction env t a c result")
    show ?thesis
    proof (cases ro)
      case (Inl e)
      with Inr sc rt assms have "submitSwap env = (Inl e, pfx @ [call] @ ws)"
        by (simp add: submitSwap_def)
      with Inl Inr sc rt show ?thesis by simp
    next
      case (Inr u)
      with \<open>out = Inr result\<close> sc rt assms
      have "submitSwap env = (Inr result, pfx @ [call] @ ws)"
        by (simp add: submitSwap_def)
      with Inr \<open>out = Inr result\<close> sc rt show ?thesis by simp
    qed
  qed
qed

lemma submitSwap_after_checks_writes:
  assumes "checkPreconditions env = (Inr (t, a, c), pfx)"
  shows "\<exists>writes. snd (submitSwap env) = pfx @ fst (swapCallback env) # writes \<and>
                  (\<forall>e \<in> set writes. is_record_write e)"
proof (cases "snd (swapCallback env)")
  case (Inl e)
  with submitSwap_after_checks [OF assms] show ?thesis by simp
next
  case (Inr result)
  with submitSwap_after_checks [OF assms] recordTransaction_writes [of env t a c result]
  show ?thesis by simp
qed

text \<open>
  Claim C2, as amended. Let the first four checks pass. The connected chain the code
  compares with the swap chain is the value of \<^verbatim>\<open>useSupportedChainId\<close> for the wallet's
  chain, which is \<^verbatim>\<open>undefined\<close> when the hook does not recognise that chain. When this
  value is missing or differs from the swap chain, exactly one chain-switch request is
  made, and it comes before the call of the submission primitive; when its result is
  falsy, \<^verbatim>\<open>submitSwap\<close> throws the chain error and nothing is submitted. When the value is
  the swap chain, no switch is requested and the checks pass. Once the checks have passed
  the submission primitive is called exactly once, and its failure is the failure of
  \<^verbatim>\<open>submitSwap\<close>.
\<close>

theorem submitSwap_chain_switch:
  assumes "trade env = Some t" and "isConnected (useAccount env)"
    and "\<not> falsy_string (address (useAccount env))"
    and "swapChainId env = Some c" and "c \<noteq> 0" and "isEVMChain env c"
  shows
    "(supportedConnectedChainId env \<noteq> Some c \<and> \<not> selectChain env c \<longrightarrow>
        submitSwap env =
          (Inl (Error ''wallet must be connected to correct chain to swap''), [SelectChain c])) \<and>
     (supportedConnectedChainId env \<noteq> Some c \<and> selectChain env c \<longrightarrow>
        checkPreconditions env =
          (Inr (t, string_value (address (useAccount env)), c), [SelectChain c]) \<and>
        (\<exists>writes. snd (submitSwap env) = SelectChain c # fst (swapCallback env) # writes \<and>
                  (\<forall>e \<in> set writes. is_record_write e)) \<and>
        filter is_chain_switch (snd (submitSwap env)) = [SelectChain c] \<and>
        filter is_submission (snd (submitSwap env)) = [fst (swapCallback env)]) \<and>
     (supportedConnectedChainId env = Some c \<longrightarrow>
        checkPreconditions env = (Inr (t, string_value (address (useAccount env)), c), []) \<and>
        (\<exists>writes. snd (submitSwap env) = fst (swapCallback env) # writes \<and>
                  (\<forall>e \<in> set writes. is_record_write e)) \<and>
        filter is_chain_switch (snd (submitSwap env)) = [] \<and>
        filter is_submission (snd (submitSwap env)) = [fst (swapCallback env)]) \<and>
     (\<forall>e. (supportedConnectedChainId env = Some c \<or> selectChain env c) \<and>
          snd (swapCallback env) = Inl e \<longrightarrow>
        fst (submitSwap env) = Inl e)"
proof -
  note pre = checkPreconditions_pass [OF assms]
  note sub = swapCallback_is_submission [of env]
  let ?a = "string_value (address (useAccount env))"
  have sw: "\<not> is_chain_switch (fst (swapCallback env))"
    by (simp add: swapCallback_def Let_def)
  have a: "supportedConnectedChainId env \<noteq> Some c \<and> \<not> selectChain env c \<longrightarrow>
        submitSwap env =
          (Inl (Error ''wallet must be connected to correct chain to swap''), [SelectChain c])"
    using pre by (simp add: submitSwap_def)
  have b: "supportedConnectedChainId env \<noteq> Some c \<and> selectChain env c \<longrightarrow>
        checkPreconditions env = (Inr (t, ?a, c), [SelectChain c]) \<and>
        (\<exists>writes. snd (submitSwap env) = SelectChain c # fst (swapCallback env) # writes \<and>
                  (\<forall>e \<in> set writes. is_record_write e)) \<and>
        filter is_chain_switch (snd (submitSwap env)) = [SelectChain c] \<and>
        filter is_submission (snd (submitSwap env)) = [fst (swapCallback env)]"
  proof
    assume h: "supportedConnectedChainId env \<noteq> Some c \<and> selectChain env c"
    with pre have p: "checkPreconditions env = (Inr (t, ?a, c), [SelectChain c])"
      by simp
    from submitSwap_after_checks_writes [OF p]
    obtain writes where w:
        "snd (submitSwap env) = SelectChain c # fst (swapCallback env) # writes"
        "\<forall>e \<in> set writes. is_record_write e"
      by auto
    from filter_record_writes [OF w(2)] w sub sw p
    show "checkPreconditions env = (Inr (t, ?a, c), [SelectChain c]) \<and>
        (\<exists>writes. snd (submitSwap env) = SelectChain c # fst (swapCallback env) # writes \<and>
                  (\<forall>e \<in> set writes. is_record_write e)) \<and>
        filter is_chain_switch (snd (submitSwap env)) = [SelectChain c] \<and>
        filter is_submission (snd (submitSwap env)) = [fst (swapCallback env)]"
      by simp
  qed
  have c: "supportedConnectedChainId env = Some c \<longrightarrow>
        checkPreconditions env = (Inr (t, ?a, c), []) \<and>
        (\<exists>writes. snd (submitSwap env) = fst (swapCallback env) # writes \<and>
                  (\<forall>e \<in> set writes. is_record_write e)) \<and>
        filter is_chain_switch (snd (submitSwap env)) = [] \<and>
        filter is_submission (snd (submitSwap env)) = [fst (swapCallback env)]"
  proof
    assume h: "supportedConnectedChainId env = Some c"
    with pre have p: "checkPreconditions env = (Inr (t, ?a, c), [])"
      by simp
    from submitSwap_after_checks_writes [OF p]
    obtain writes where w:
        "snd (submitSwap env) = fst (swapCallback env) # writes"
        "\<forall>e \<in> set writes. is_record_write e"
      by auto
    from filter_record_writes [OF w(2)] w sub sw p
    show "checkPreconditions env = (Inr (t, ?a, c), []) \<and>
        (\<exists>writes. snd (submitSwap env) = fst (swapCallback env) # writes \<and>
                  (\<forall>e \<in> set writes. is_record_write e)) \<and>
        filter is_chain_switch (snd (submitSwap env)) = [] \<and>
        filter is_submission (snd (submitSwap env)) = [fst (swapCallback env)]"
      by simp
  qed
  have d: "\<forall>e. (supportedConnectedChainId env = Some c \<or> selectChain env c) \<and>
          snd (swapCallback env) = Inl e \<longrightarrow>
        fst (submitSwap env) = Inl e"
  proof (intro allI impI)
    fix e
    assume h: "(supportedConnectedChainId env = Some c \<or> selectChain env c) \<and>
          snd (swapCallback env) = Inl e"
    with pre obtain pfx where p: "checkPreconditions env = (Inr (t, ?a, c), pfx)"
      by (cases "supportedConnectedChainId env = Some c") auto
    from submitSwap_after_checks [OF p] h show "fst (submitSwap env) = Inl e"
      by simp
  qed
  from a b c d show ?thesis by blast
qed

theorem submitSwap_chain_switch_witness:
  "filter is_chain_switch (snd (submitSwap wrong_chain_env)) = [SelectChain 1] \<and>
   checkPreconditions wrong_chain_env = (Inr (example_trade, ''0xabc'', 1), [SelectChain 1]) \<and>
   submitSwap switch_fails_env =
     (Inl (Error ''wallet must be connected to correct chain to swap''), [SelectChain 1]) \<and>
   filter is_chain_switch (snd (submitSwap example_env)) = [] \<and>
   checkPreconditions example_env = (Inr (example_trade, ''0xabc'', 1), [])"
proof -
  have a: "filter is_chain_switch (snd (submitSwap wrong_chain_env)) = [SelectChain 1] \<and>
      checkPreconditions wrong_chain_env =
        (Inr (example_trade, ''0xabc'', 1), [SelectChain 1])"
    using submitSwap_chain_switch [of wrong_chain_env example_trade 1]
    by (simp add: wrong_chain_env_def example_env_def falsy_string_def string_value_def
        supportedConnectedChainId_def)
  have b: "submitSwap switch_fails_env =
     (Inl (Error ''wallet must be connected to correct chain to swap''), [SelectChain 1])"
    using submitSwap_chain_switch [of switch_fails_env example_trade 1]
    by (simp add: switch_fails_env_def wrong_chain_env_def example_env_def falsy_string_def
        supportedConnectedChainId_def)
  have c: "filter is_chain_switch (snd (submitSwap example_env)) = [] \<and>
      checkPreconditions example_env = (Inr (example_trade, ''0xabc'', 1), [])"
    using submitSwap_chain_switch [of example_env example_trade 1]
    by (simp add: example_env_def falsy_string_def string_value_def
        supportedConnectedChainId_def)
  from a b c show ?thesis by blast
qed

text \<open>
  The wallet is connected to chain 1 and the swap is on chain 1, but
  \<^verbatim>\<open>useSupportedChainId\<close> gives \<^verbatim>\<open>undefined\<close> for the wallet's chain: a chain switch is
  requested all the same, and its failure is thrown.
\<close>

theorem submitSwap_same_chain_switch_counterexample:
  "account_chainId (useAccount unsupported_chain_env) = swapChainId unsupported_chain_env \<and>
   submitSwap unsupported_chain_env =
     (Inl (Error ''wallet must be connected to correct chain to swap''), [SelectChain 1])"
  by (simp add: submitSwap_def checkPreconditions_def Let_def unsupported_chain_env_def
      example_env_def falsy_number_def falsy_string_def number_value_def
      supportedConnectedChainId_def)

lemma map_sum_Inr: "map_sum f g x = Inr y \<Longrightarrow> \<exists>z. x = Inr z \<and> y = g z"
  by (cases x) auto

lemma deadline_toNumber_cases:
  "deadline_toNumber d =
     (case d of
        None \<Rightarrow> Inr None
      | Some n \<Rightarrow> if n \<le> MAX_SAFE_INTEGER then Inr (Some n) else Inl (Error ''overflow''))"
  by (simp add: deadline_toNumber_def BigNumber_toNumber_def split: option.split)

text \<open>
  Claim C3, as amended. Let the checks pass and the submission primitive resolve with a
  result. For a limit order the result is an off-chain result and exactly one record is
  appended to the store, with the order hash as identifier, status \<^verbatim>\<open>Pending\<close>, queue
  status \<^verbatim>\<open>Submitted\<close>, origin \<^verbatim>\<open>Internal\<close>, routing \<^verbatim>\<open>DUTCH_LIMIT\<close>, and the encoded order
  and expiry of the result, and the tracking subsystem's add is not called. For a classic
  result whose deadline is absent or a safe integer, exactly one add call is made, with
  the response, the amount summary and the optional deadline, and nothing is appended to
  the store. For a classic result whose deadline is not a safe integer, the conversion of
  the deadline throws before the add call: \<^verbatim>\<open>submitSwap\<close> fails and nothing is written. For
  an off-chain result of a trade that is not a limit order, neither write happens.
\<close>

theorem submitSwap_recording:
  assumes "checkPreconditions env = (Inr (t, a, c), pfx)"
    and "snd (swapCallback env) = Inr result"
  shows
    "(isLimitTrade (trade env) \<longrightarrow>
        (\<exists>r. result = UniswapXSwapResult r \<and>
             filter is_store_append (snd (submitSwap env)) =
               [DispatchAddTransaction
                  \<lparr>details_id = orderHash (uniswapx_response r),
                   details_chainId = number_value (swapChainId env),
                   details_from = string_value (address (useAccount env)),
                   details_status = Pending,
                   addedTime = Date_now env,
                   transactionOriginType = Internal,
                   typeInfo = swapInfo env t result,
                   details_routing = DUTCH_LIMIT,
                   details_orderHash = orderHash (uniswapx_response r),
                   queueStatus = Submitted,
                   details_encodedOrder = encodedOrder (uniswapx_response r),
                   expiry = order_deadline (uniswapx_response r)\<rparr>]) \<and>
        filter is_tracking_add (snd (submitSwap env)) = [] \<and>
        fst (submitSwap env) = Inr result) \<and>
     (\<forall>r. result = ClassicSwapResult r \<and>
          (classic_deadline r = None \<or>
           (\<exists>n. classic_deadline r = Some n \<and> n \<le> MAX_SAFE_INTEGER)) \<longrightarrow>
        filter is_tracking_add (snd (submitSwap env)) =
          [AddClassicTransaction (classic_response r) (swapInfo env t result) (classic_deadline r)] \<and>
        filter is_store_append (snd (submitSwap env)) = [] \<and>
        fst (submitSwap env) = Inr result) \<and>
     (\<forall>r n. result = ClassicSwapResult r \<and> classic_deadline r = Some n \<and>
            MAX_SAFE_INTEGER < n \<longrightarrow>
        filter is_tracking_add (snd (submitSwap env)) = [] \<and>
        filter is_store_append (snd (submitSwap env)) = [] \<and>
        fst (submitSwap env) = Inl (Error ''overflow'')) \<and>
     (result_type result \<noteq> Classic \<and> \<not> isLimitTrade (trade env) \<longrightarrow>
        filter is_tracking_add (snd (submitSwap env)) = [] \<and>
        filter is_store_append (snd (submitSwap env)) = [] \<and>
        fst (submitSwap env) = Inr result)"
proof -
  from submitSwap_after_checks [OF assms(1)] assms(2)
  have out: "fst (submitSwap env) =
      (case fst (recordTransaction env t a c result) of Inl e \<Rightarrow> Inl e | Inr u \<Rightarrow> Inr result)"
    and fx: "snd (submitSwap env) =
      pfx @ fst (swapCallback env) # snd (recordTransaction env t a c result)"
    by simp_all
  from checkPreconditions_Inr [OF assms(1)]
  have tr: "trade env = Some t" and a: "a = string_value (address (useAccount env))"
    and c: "c = number_value (swapChainId env)"
    and pfx: "pfx = [] \<or> pfx = [SelectChain c]"
    by (auto split: if_splits)
  have p1: "filter is_tracking_add pfx = []" "filter is_store_append pfx = []"
    using pfx by auto
  have p2: "\<not> is_tracking_add (fst (swapCallback env))" "\<not> is_store_append (fst (swapCallback env))"
    by (simp_all add: swapCallback_def Let_def)
  have lim: "isLimitTrade (trade env) \<Longrightarrow> \<exists>r. result = UniswapXSwapResult r"
    using assms(2) tr
    by (auto simp: swapCallback_def Let_def isLimitTrade_def isUniswapXTrade_def
        dest: map_sum_Inr)
  have x: "isLimitTrade (trade env) \<longrightarrow>
        (\<exists>r. result = UniswapXSwapResult r \<and>
             filter is_store_append (snd (submitSwap env)) =
               [DispatchAddTransaction
                  \<lparr>details_id = orderHash (uniswapx_response r),
                   details_chainId = number_value (swapChainId env),
                   details_from = string_value (address (useAccount env)),
                   details_status = Pending,
                   addedTime = Date_now env,
                   transactionOriginType = Internal,
                   typeInfo = swapInfo env t result,
                   details_routing = DUTCH_LIMIT,
                   details_orderHash = orderHash (uniswapx_response r),
                   queueStatus = Submitted,
                   details_encodedOrder = encodedOrder (uniswapx_response r),
                   expiry = order_deadline (uniswapx_response r)\<rparr>]) \<and>
        filter is_tracking_add (snd (submitSwap env)) = [] \<and>
        fst (submitSwap env) = Inr result"
  proof
    assume l: "isLimitTrade (trade env)"
    from lim [OF l] obtain r where r: "result = UniswapXSwapResult r" ..
    from l tr have "isLimitTrade (Some t)" by simp
    with r fx out a c p1 p2 show "(\<exists>r. result = UniswapXSwapResult r \<and>
             filter is_store_append (snd (submitSwap env)) =
               [DispatchAddTransaction
                  \<lparr>details_id = orderHash (uniswapx_response r),
                   details_chainId = number_value (swapChainId env),
                   details_from = string_value (address (useAccount env)),
                   details_status = Pending,
                   addedTime = Date_now env,
                   transactionOriginType = Internal,
                   typeInfo = swapInfo env t result,
                   details_routing = DUTCH_LIMIT,
                   details_orderHash = orderHash (uniswapx_response r),
                   queueStatus = Submitted,
                   details_encodedOrder = encodedOrder (uniswapx_response r),
                   expiry = order_deadline (uniswapx_response r)\<rparr>]) \<and>
        filter is_tracking_add (snd (submitSwap env)) = [] \<and>
        fst (submitSwap env) = Inr result"
      by (simp add: recordTransaction_def)
  qed
  have y: "\<forall>r. result = ClassicSwapResult r \<and>
          (classic_deadline r = None \<or>
           (\<exists>n. classic_deadline r = Some n \<and> n \<le> MAX_SAFE_INTEGER)) \<longrightarrow>
        filter is_tracking_add (snd (submitSwap env)) =
          [AddClassicTransaction (classic_response r) (swapInfo env t result) (classic_deadline r)] \<and>
        filter is_store_append (snd (submitSwap env)) = [] \<and>
        fst (submitSwap env) = Inr result"
  proof (intro allI impI)
    fix r
    assume h: "result = ClassicSwapResult r \<and>
          (classic_deadline r = None \<or>
           (\<exists>n. classic_deadline r = Some n \<and> n \<le> MAX_SAFE_INTEGER))"
    then have "deadline_toNumber (classic_deadline r) = Inr (classic_deadline r)"
      by (auto simp: deadline_toNumber_cases)
    with h fx out p1 p2 show "filter is_tracking_add (snd (submitSwap env)) =
          [AddClassicTransaction (classic_response r) (swapInfo env t result) (classic_deadline r)] \<and>
        filter is_store_append (snd (submitSwap env)) = [] \<and>
        fst (submitSwap env) = Inr result"
      by (simp add: recordTransaction_def)
  qed
  have w: "\<forall>r n. result = ClassicSwapResult r \<and> classic_deadline r = Some n \<and>
            MAX_SAFE_INTEGER < n \<longrightarrow>
        filter is_tracking_add (snd (submitSwap env)) = [] \<and>
        filter is_store_append (snd (submitSwap env)) = [] \<and>
        fst (submitSwap env) = Inl (Error ''overflow'')"
  proof (intro allI impI)
    fix r n
    assume h: "result = ClassicSwapResult r \<and> classic_deadline r = Some n \<and>
            MAX_SAFE_INTEGER < n"
    then have "deadline_toNumber (classic_deadline r) = Inl (Error ''overflow'')"
      by (simp add: deadline_toNumber_cases)
    with h fx out p1 p2 show "filter is_tracking_add (snd (submitSwap env)) = [] \<and>
        filter is_store_append (snd (submitSwap env)) = [] \<and>
        fst (submitSwap env) = Inl (Error ''overflow'')"
      by (simp add: recordTransaction_def)
  qed
  have z: "result_type result \<noteq> Classic \<and> \<not> isLimitTrade (trade env) \<longrightarrow>
        filter is_tracking_add (snd (submitSwap env)) = [] \<and>
        filter is_store_append (snd (submitSwap env)) = [] \<and>
        fst (submitSwap env) = Inr result"
  proof
    assume h: "result_type result \<noteq> Classic \<and> \<not> isLimitTrade (trade env)"
    then obtain r where r: "result = UniswapXSwapResult r"
      by (cases result) auto
    from h tr have "\<not> isLimitTrade (Some t)" by simp
    with r fx out p1 p2 show "filter is_tracking_add (snd (submitSwap env)) = [] \<and>
        filter is_store_append (snd (submitSwap env)) = [] \<and>
        fst (submitSwap env) = Inr result"
      by (simp add: recordTransaction_def)
  qed
  from x y w z show ?thesis by blast
qed

theorem submitSwap_recording_witness:
  "filter is_store_append (snd (submitSwap limit_env)) =
     [DispatchAddTransaction
        \<lparr>details_id = ''0xorder'', details_chainId = 1, details_from = ''0xabc'',
         details_status = Pending, addedTime = 1000, transactionOriginType = Internal,
         typeInfo = ExactInputSwapInfo ''1-0xA'' ''1-0xB'' True ''1000'' ''500'' ''495'',
         details_routing = DUTCH_LIMIT, details_orderHash = ''0xorder'',
         queueStatus = Submitted, details_encodedOrder = ''0xenc'', expiry = 1700\<rparr>] \<and>
   filter is_tracking_add (snd (submitSwap limit_env)) = [] \<and>
   filter is_tracking_add (snd (submitSwap example_env)) =
     [AddClassicTransaction \<lparr>hash = ''0xhash''\<rparr>
        (ExactInputSwapInfo ''1-0xA'' ''1-0xB'' False ''1000'' ''500'' ''495'') (Some 1800)] \<and>
   filter is_store_append (snd (submitSwap example_env)) = [] \<and>
   fst (submitSwap example_env) = Inr (ClassicSwapResult example_classic_result)"
proof -
  have n: "string_of_nat 1000 = ''1000''" "string_of_nat 500 = ''500''"
      "string_of_nat 495 = ''495''"
    by (simp_all add: string_of_nat.simps digit_char_def)
  let ?lt = "example_trade\<lparr>variant := LimitOrderTrade, swapFee := None\<rparr>"
  have i1: "swapInfo limit_env ?lt (UniswapXSwapResult example_uniswapx_result) =
      ExactInputSwapInfo ''1-0xA'' ''1-0xB'' True ''1000'' ''500'' ''495''"
    using n by (simp add: swapInfo_def Let_def minimumAmountOut_def limit_env_def example_env_def
        example_trade_def one_percent_def example_uniswapx_result_def)
  have i2: "swapInfo example_env example_trade (ClassicSwapResult example_classic_result) =
      ExactInputSwapInfo ''1-0xA'' ''1-0xB'' False ''1000'' ''500'' ''495''"
    using n by (simp add: swapInfo_def Let_def minimumAmountOut_def example_env_def
        example_trade_def one_percent_def)
  have pl: "checkPreconditions limit_env = (Inr (?lt, ''0xabc'', 1), [])"
    by (simp add: checkPreconditions_def limit_env_def example_env_def falsy_string_def
        falsy_number_def number_value_def string_value_def supportedConnectedChainId_def)
  have pe: "checkPreconditions example_env = (Inr (example_trade, ''0xabc'', 1), [])"
    by (simp add: checkPreconditions_def example_env_def falsy_string_def
        falsy_number_def number_value_def string_value_def supportedConnectedChainId_def)
  have cl: "snd (swapCallback limit_env) = Inr (UniswapXSwapResult example_uniswapx_result)"
    by (simp add: swapCallback_def Let_def limit_env_def example_env_def example_trade_def
        isUniswapXTrade_def)
  have ce: "snd (swapCallback example_env) = Inr (ClassicSwapResult example_classic_result)"
    by (simp add: swapCallback_def Let_def example_env_def example_trade_def
        isUniswapXTrade_def)
  have il: "isLimitTrade (trade limit_env)"
    by (simp add: limit_env_def example_env_def example_trade_def isLimitTrade_def)
  have v: "number_value (swapChainId limit_env) = 1"
      "string_value (address (useAccount limit_env)) = ''0xabc''"
      "Date_now limit_env = 1000"
    by (simp_all add: limit_env_def example_env_def number_value_def string_value_def)
  have dl: "classic_deadline example_classic_result = Some 1800"
      "(1800::nat) \<le> MAX_SAFE_INTEGER"
    by (simp_all add: example_classic_result_def MAX_SAFE_INTEGER_def)
  have a: "filter is_store_append (snd (submitSwap limit_env)) =
     [DispatchAddTransaction
        \<lparr>details_id = ''0xorder'', details_chainId = 1, details_from = ''0xabc'',
         details_status = Pending, addedTime = 1000, transactionOriginType = Internal,
         typeInfo = ExactInputSwapInfo ''1-0xA'' ''1-0xB'' True ''1000'' ''500'' ''495'',
         details_routing = DUTCH_LIMIT, details_orderHash = ''0xorder'',
         queueStatus = Submitted, details_encodedOrder = ''0xenc'', expiry = 1700\<rparr>] \<and>
     filter is_tracking_add (snd (submitSwap limit_env)) = []"
    using submitSwap_recording [OF pl cl] il i1 v
    by (simp add: example_uniswapx_result_def)
  have b: "filter is_tracking_add (snd (submitSwap example_env)) =
     [AddClassicTransaction \<lparr>hash = ''0xhash''\<rparr>
        (ExactInputSwapInfo ''1-0xA'' ''1-0xB'' False ''1000'' ''500'' ''495'') (Some 1800)] \<and>
     filter is_store_append (snd (submitSwap example_env)) = [] \<and>
     fst (submitSwap example_env) = Inr (ClassicSwapResult example_classic_result)"
    using submitSwap_recording [OF pe ce] i2 dl
    by (simp add: example_classic_result_def)
  from a b show ?thesis by blast
qed

text \<open>
  The checks pass and the classic submission resolves, with a deadline of 2 to the power
  53: the conversion of the deadline throws, no add call is made and \<^verbatim>\<open>submitSwap\<close> fails.
\<close>

theorem submitSwap_deadline_overflow_counterexample:
  "fst (checkPreconditions overflow_env) = Inr (example_trade, ''0xabc'', 1) \<and>
   snd (swapCallback overflow_env) =
     Inr (ClassicSwapResult \<lparr>classic_response = \<lparr>hash = ''0xhash''\<rparr>,
                              classic_deadline = Some 9007199254740992\<rparr>) \<and>
   filter is_tracking_add (snd (submitSwap overflow_env)) = [] \<and>
   fst (submitSwap overflow_env) = Inl (Error ''overflow'')"
proof -
  have p: "checkPreconditions overflow_env = (Inr (example_trade, ''0xabc'', 1), [])"
    by (simp add: checkPreconditions_def overflow_env_def example_env_def falsy_string_def
        falsy_number_def number_value_def string_value_def supportedConnectedChainId_def)
  have cb: "snd (swapCallback overflow_env) =
     Inr (ClassicSwapResult \<lparr>classic_response = \<lparr>hash = ''0xhash''\<rparr>,
                              classic_deadline = Some 9007199254740992\<rparr>)"
    by (simp add: swapCallback_def Let_def overflow_env_def example_env_def example_trade_def
        isUniswapXTrade_def)
  have r: "recordTransaction overflow_env example_trade ''0xabc'' 1
        (ClassicSwapResult \<lparr>classic_response = \<lparr>hash = ''0xhash''\<rparr>,
                             classic_deadline = Some 9007199254740992\<rparr>) =
      (Inl (Error ''overflow''), [])"
    by (simp add: recordTransaction_def deadline_toNumber_def BigNumber_toNumber_def
        MAX_SAFE_INTEGER_def)
  have "\<not> is_tracking_add (fst (swapCallback overflow_env))"
    by (simp add: swapCallback_def Let_def)
  with submitSwap_after_checks [OF p] cb r p show ?thesis
    by simp
qed

text \<open>
  Claim C5. \<^verbatim>\<open>getUniversalRouterFeeFields\<close> returns no descriptor when the trade is not
  classic (or absent) or carries no fee. For a classic \<^verbatim>\<open>EXACT_INPUT\<close> trade with a fee it
  returns exactly the percentage-fee descriptor (the fee's percentage and recipient); for
  a classic \<^verbatim>\<open>EXACT_OUTPUT\<close> trade with a fee exactly the flat-amount descriptor (the fee's
  amount and recipient). The options object that receives the descriptor never has both
  \<^verbatim>\<open>feeOptions\<close> and \<^verbatim>\<open>flatFeeOptions\<close>.
\<close>

theorem getUniversalRouterFeeFields_shapes:
  "(\<not> isClassicTrade t \<longrightarrow> getUniversalRouterFeeFields t = None) \<and>
   (\<forall>tr. t = Some tr \<and> swapFee tr = None \<longrightarrow> getUniversalRouterFeeFields t = None) \<and>
   (\<forall>tr f. t = Some tr \<and> variant tr = ClassicTrade \<and> swapFee tr = Some f \<and>
            tradeType tr = EXACT_INPUT \<longrightarrow>
      getUniversalRouterFeeFields t =
        Some (FeeOptionsField \<lparr>fee = fee_percent f, recipient = fee_recipient f\<rparr>)) \<and>
   (\<forall>tr f. t = Some tr \<and> variant tr = ClassicTrade \<and> swapFee tr = Some f \<and>
            tradeType tr = EXACT_OUTPUT \<longrightarrow>
      getUniversalRouterFeeFields t =
        Some (FlatFeeOptionsField \<lparr>amount = fee_amount f, flat_recipient = fee_recipient f\<rparr>)) \<and>
   \<not> (feeOptions (universalRouterOptions t slippage sig) \<noteq> None \<and>
      flatFeeOptions (universalRouterOptions t slippage sig) \<noteq> None)"
proof -
  have a: "\<not> isClassicTrade t \<longrightarrow> getUniversalRouterFeeFields t = None"
    by (simp add: getUniversalRouterFeeFields_def)
  have b: "\<forall>tr. t = Some tr \<and> swapFee tr = None \<longrightarrow> getUniversalRouterFeeFields t = None"
    by (simp add: getUniversalRouterFeeFields_def)
  have c: "\<forall>tr f. t = Some tr \<and> variant tr = ClassicTrade \<and> swapFee tr = Some f \<and>
            tradeType tr = EXACT_INPUT \<longrightarrow>
      getUniversalRouterFeeFields t =
        Some (FeeOptionsField \<lparr>fee = fee_percent f, recipient = fee_recipient f\<rparr>)"
    by (simp add: getUniversalRouterFeeFields_def isClassicTrade_def)
  have d: "\<forall>tr f. t = Some tr \<and> variant tr = ClassicTrade \<and> swapFee tr = Some f \<and>
            tradeType tr = EXACT_OUTPUT \<longrightarrow>
      getUniversalRouterFeeFields t =
        Some (FlatFeeOptionsField \<lparr>amount = fee_amount f, flat_recipient = fee_recipient f\<rparr>)"
    by (simp add: getUniversalRouterFeeFields_def isClassicTrade_def BigNumber_from_def)
  have e: "\<not> (feeOptions (universalRouterOptions t slippage sig) \<noteq> None \<and>
      flatFeeOptions (universalRouterOptions t slippage sig) \<noteq> None)"
    by (simp add: universalRouterOptions_def spread_fee_field_def
        split: option.split universal_router_fee_field.split)
  from a b c d e show ?thesis by blast
qed


theorem getUniversalRouterFeeFields_shapes_witness:
  "getUniversalRouterFeeFields (Some example_trade) =
     Some (FeeOptionsField \<lparr>fee = \<lparr>numerator = 25, denominator = 10000\<rparr>, recipient = ''0xfee''\<rparr>) \<and>
   getUniversalRouterFeeFields (Some (example_trade\<lparr>tradeType := EXACT_OUTPUT\<rparr>)) =
     Some (FlatFeeOptionsField \<lparr>amount = 7, flat_recipient = ''0xfee''\<rparr>) \<and>
   getUniversalRouterFeeFields (Some (example_trade\<lparr>variant := DutchOrderTrade\<rparr>)) = None \<and>
   getUniversalRouterFeeFields (Some (example_trade\<lparr>swapFee := None\<rparr>)) = None"
proof -
  have a: "getUniversalRouterFeeFields (Some example_trade) =
     Some (FeeOptionsField \<lparr>fee = \<lparr>numerator = 25, denominator = 10000\<rparr>, recipient = ''0xfee''\<rparr>)"
    using getUniversalRouterFeeFields_shapes [of "Some example_trade"]
    by (simp add: example_trade_def example_fee_def)
  have b: "getUniversalRouterFeeFields (Some (example_trade\<lparr>tradeType := EXACT_OUTPUT\<rparr>)) =
     Some (FlatFeeOptionsField \<lparr>amount = 7, flat_recipient = ''0xfee''\<rparr>)"
    using getUniversalRouterFeeFields_shapes [of "Some (example_trade\<lparr>tradeType := EXACT_OUTPUT\<rparr>)"]
    by (simp add: example_trade_def example_fee_def)
  have c: "getUniversalRouterFeeFields (Some (example_trade\<lparr>variant := DutchOrderTrade\<rparr>)) = None"
    using getUniversalRouterFeeFields_shapes [of "Some (example_trade\<lparr>variant := DutchOrderTrade\<rparr>)"]
    by (simp add: example_trade_def isClassicTrade_def)
  have d: "getUniversalRouterFeeFields (Some (example_trade\<lparr>swapFee := None\<rparr>)) = None"
    using getUniversalRouterFeeFields_shapes [of "Some (example_trade\<lparr>swapFee := None\<rparr>)"]
    by (simp add: example_trade_def)
  from a b c d show ?thesis by blast
qed

text \<open>
  Claim C4. The amount summary built by \<^verbatim>\<open>submitSwap\<close> is tagged by the trade type. For
  an \<^verbatim>\<open>EXACT_INPUT\<close> trade it records the input amount, the expected output amount and the
  minimum output, which is the expected output reduced by the slippage tolerance; for an
  \<^verbatim>\<open>EXACT_OUTPUT\<close> trade it records the output amount, the expected input amount and the
  maximum input, which is the expected input increased by the slippage tolerance. The
  off-chain-order flag is set exactly when the result is an off-chain-order result of
  either generation. The witness is the trade with input 1000 and output 500 under 1%
  slippage: the minimum output is 495.
\<close>

theorem swapInfo_amount_summary:
  "(tradeType t = EXACT_INPUT \<longrightarrow>
      swapInfo env t result =
        ExactInputSwapInfo
          (currencyId env (currency (inputAmount t)))
          (currencyId env (currency (outputAmount t)))
          (result_type result = UniswapX \<or> result_type result = UniswapXv2)
          (string_of_nat (quotient (inputAmount t)))
          (string_of_nat (quotient (outputAmount t)))
          (string_of_nat
             ((quotient (outputAmount t) *
                 (denominator (allowedSlippage env) - numerator (allowedSlippage env)))
              div denominator (allowedSlippage env)))) \<and>
   (tradeType t = EXACT_OUTPUT \<longrightarrow>
      swapInfo env t result =
        ExactOutputSwapInfo
          (currencyId env (currency (inputAmount t)))
          (currencyId env (currency (outputAmount t)))
          (result_type result = UniswapX \<or> result_type result = UniswapXv2)
          (string_of_nat
             ((quotient (inputAmount t) *
                 (denominator (allowedSlippage env) + numerator (allowedSlippage env)))
              div denominator (allowedSlippage env)))
          (string_of_nat (quotient (outputAmount t)))
          (string_of_nat (quotient (inputAmount t)))) \<and>
   info_tradeType (swapInfo env t result) = tradeType t \<and>
   isUniswapXOrder (swapInfo env t result) = (\<exists>r. result = UniswapXSwapResult r)"
proof -
  have x: "(result_type result = UniswapX \<or> result_type result = UniswapXv2) =
           (\<exists>r. result = UniswapXSwapResult r)"
    by (cases result) (auto split: uniswapx_fill_type.split)
  have a: "tradeType t = EXACT_INPUT \<longrightarrow>
      swapInfo env t result =
        ExactInputSwapInfo
          (currencyId env (currency (inputAmount t)))
          (currencyId env (currency (outputAmount t)))
          (result_type result = UniswapX \<or> result_type result = UniswapXv2)
          (string_of_nat (quotient (inputAmount t)))
          (string_of_nat (quotient (outputAmount t)))
          (string_of_nat
             ((quotient (outputAmount t) *
                 (denominator (allowedSlippage env) - numerator (allowedSlippage env)))
              div denominator (allowedSlippage env)))"
    by (simp add: swapInfo_def minimumAmountOut_def Let_def)
  have b: "tradeType t = EXACT_OUTPUT \<longrightarrow>
      swapInfo env t result =
        ExactOutputSwapInfo
          (currencyId env (currency (inputAmount t)))
          (currencyId env (currency (outputAmount t)))
          (result_type result = UniswapX \<or> result_type result = UniswapXv2)
          (string_of_nat
             ((quotient (inputAmount t) *
                 (denominator (allowedSlippage env) + numerator (allowedSlippage env)))
              div denominator (allowedSlippage env)))
          (string_of_nat (quotient (outputAmount t)))
          (string_of_nat (quotient (inputAmount t)))"
    by (simp add: swapInfo_def maximumAmountIn_def Let_def)
  have c: "info_tradeType (swapInfo env t result) = tradeType t"
    by (cases "tradeType t") (simp_all add: swapInfo_def Let_def)
  have d: "isUniswapXOrder (swapInfo env t result) = (\<exists>r. result = UniswapXSwapResult r)"
    using x by (simp add: swapInfo_def Let_def)
  from a b c d show ?thesis by blast
qed

theorem swapInfo_amount_summary_witness:
  "swapInfo example_env example_trade (ClassicSwapResult example_classic_result) =
     ExactInputSwapInfo ''1-0xA'' ''1-0xB'' False ''1000'' ''500'' ''495''"
proof -
  have t: "tradeType example_trade = EXACT_INPUT"
    by (simp add: example_trade_def)
  have "string_of_nat 1000 = ''1000''" "string_of_nat 500 = ''500''" "string_of_nat 495 = ''495''"
    by (simp_all add: string_of_nat.simps digit_char_def)
  then show ?thesis
    using t swapInfo_amount_summary
      [of example_trade example_env "ClassicSwapResult example_classic_result"]
    by (simp add: example_trade_def example_env_def one_percent_def)
qed

section \<open>Properties of the failover transport and the client factory\<close>

text \<open>
  Claim C7. On a response whose status is not 200, \<^verbatim>\<open>defaultOnFetchResponse\<close> makes
  exactly one logger call: a warning when the chain is a testnet, an error otherwise. Both
  carry the chain identifier and the URL as structured context. On status 200 it logs
  nothing. In every case it returns normally.
\<close>

theorem defaultOnFetchResponse_classification:
  "(status response \<noteq> 200 \<and> isTestnetChain (chain_id chain) \<longrightarrow>
      snd (defaultOnFetchResponse isTestnetChain response chain url) =
        [Logger_warn ''wagmiConfig.ts'' ''client''
           (''RPC provider returned non-200 status: '' @ string_of_nat (status response))
           \<lparr>extra_chainId = chain_id chain, extra_url = url\<rparr>]) \<and>
   (status response \<noteq> 200 \<and> \<not> isTestnetChain (chain_id chain) \<longrightarrow>
      snd (defaultOnFetchResponse isTestnetChain response chain url) =
        [Logger_error
           (Error (''RPC provider returned non-200 status: '' @ string_of_nat (status response)))
           \<lparr>extra_chainId = chain_id chain, extra_url = url\<rparr>
           \<lparr>tags_file = ''wagmiConfig.ts'', tags_function = ''client''\<rparr>]) \<and>
   (status response = 200 \<longrightarrow>
      snd (defaultOnFetchResponse isTestnetChain response chain url) = []) \<and>
   fst (defaultOnFetchResponse isTestnetChain response chain url) = Inr ()"
  by (simp add: defaultOnFetchResponse_def Let_def)

theorem defaultOnFetchResponse_classification_witness:
  "defaultOnFetchResponse sepolia_is_testnet \<lparr>status = 503\<rparr>
      (example_chain\<lparr>chain_id := 11155111\<rparr>) ''https://a'' =
     (Inr (), [Logger_warn ''wagmiConfig.ts'' ''client''
                 ''RPC provider returned non-200 status: 503''
                 \<lparr>extra_chainId = 11155111, extra_url = ''https://a''\<rparr>]) \<and>
   defaultOnFetchResponse sepolia_is_testnet \<lparr>status = 503\<rparr> example_chain ''https://a'' =
     (Inr (), [Logger_error (Error ''RPC provider returned non-200 status: 503'')
                 \<lparr>extra_chainId = 1, extra_url = ''https://a''\<rparr>
                 \<lparr>tags_file = ''wagmiConfig.ts'', tags_function = ''client''\<rparr>]) \<and>
   defaultOnFetchResponse sepolia_is_testnet \<lparr>status = 200\<rparr> example_chain ''https://a'' =
     (Inr (), [])"
proof -
  have s: "string_of_nat 503 = ''503''"
    by (simp add: string_of_nat.simps digit_char_def)
  have a: "defaultOnFetchResponse sepolia_is_testnet \<lparr>status = 503\<rparr>
      (example_chain\<lparr>chain_id := 11155111\<rparr>) ''https://a'' =
     (Inr (), [Logger_warn ''wagmiConfig.ts'' ''client''
                 ''RPC provider returned non-200 status: 503''
                 \<lparr>extra_chainId = 11155111, extra_url = ''https://a''\<rparr>])"
    using s defaultOnFetchResponse_classification
      [of "\<lparr>status = 503\<rparr>" sepolia_is_testnet "example_chain\<lparr>chain_id := 11155111\<rparr>" "''https://a''"]
    by (simp add: prod_eq_iff sepolia_is_testnet_def)
  have b: "defaultOnFetchResponse sepolia_is_testnet \<lparr>status = 503\<rparr> example_chain ''https://a'' =
     (Inr (), [Logger_error (Error ''RPC provider returned non-200 status: 503'')
                 \<lparr>extra_chainId = 1, extra_url = ''https://a''\<rparr>
                 \<lparr>tags_file = ''wagmiConfig.ts'', tags_function = ''client''\<rparr>])"
    using s defaultOnFetchResponse_classification
      [of "\<lparr>status = 503\<rparr>" sepolia_is_testnet example_chain "''https://a''"]
    by (simp add: prod_eq_iff sepolia_is_testnet_def example_chain_def)
  have c: "defaultOnFetchResponse sepolia_is_testnet \<lparr>status = 200\<rparr> example_chain ''https://a'' =
     (Inr (), [])"
    using defaultOnFetchResponse_classification
      [of "\<lparr>status = 200\<rparr>" sepolia_is_testnet example_chain "''https://a''"]
    by (simp add: prod_eq_iff)
  from a b c show ?thesis by blast
qed

text \<open>
  Claim C9. For every chain the client is built with multicall batching enabled, a polling
  interval of 12000 milliseconds and a fallback transport with one HTTP transport per URL
  of \<^verbatim>\<open>orderedTransportUrls\<close> for that chain, in that order, each with a response hook
  bound to the chain and to its own URL.
\<close>

theorem createWagmiConfig_client_settings:
  "multicall (batch (createWagmiConfig_client isTestnetChain params chain)) = True \<and>
   pollingInterval (createWagmiConfig_client isTestnetChain params chain) = 12000 \<and>
   client_chain (createWagmiConfig_client isTestnetChain params chain) = chain \<and>
   map transport_url
       (transports (client_transport (createWagmiConfig_client isTestnetChain params chain))) =
     orderedTransportUrls chain \<and>
   client_transport (createWagmiConfig_client isTestnetChain params chain) =
     Fallback (map (\<lambda>url. \<lparr>transport_url = url,
                             onFetchResponse = (\<lambda>response.
                               (case params of
                                  None \<Rightarrow> defaultOnFetchResponse isTestnetChain
                                | Some h \<Rightarrow> h) response chain url)\<rparr>)
                   (orderedTransportUrls chain))"
  by (simp add: createWagmiConfig_client_def createClient_def fallback_def http_tr_def
      Let_def comp_def)

theorem createWagmiConfig_client_settings_witness:
  "pollingInterval (createWagmiConfig_client sepolia_is_testnet None example_chain) = 12000 \<and>
   multicall (batch (createWagmiConfig_client sepolia_is_testnet None example_chain)) \<and>
   map transport_url
       (transports (client_transport (createWagmiConfig_client sepolia_is_testnet None example_chain))) =
     [''https://a'', ''https://b'', ''https://c'', ''https://d'']"
proof -
  have v: "orderedTransportUrls example_chain =
      [''https://a'', ''https://b'', ''https://c'', ''https://d'']"
    by (simp add: orderedTransportUrls_def Array_from_def orderedRpcUrls_def new_Set_def
        set_add_def http_or_empty_def example_chain_def truthy_string_def)
  show ?thesis
    using v createWagmiConfig_client_settings [of sepolia_is_testnet None example_chain]
    by simp
qed

section \<open>Properties of the status lookup\<close>

text \<open>
  Claim C8. \<^verbatim>\<open>useSwapTransactionStatus\<close> returns the status of the stored record whose hash
  is the transaction hash of a classic result; it returns \<^verbatim>\<open>undefined\<close> for a classic
  result without a stored record, for every result that is not classic whatever the store
  holds, and when there is no result.
\<close>

theorem useSwapTransactionStatus_classic_only:
  "(\<forall>r tx. swapResult = Some (ClassicSwapResult r) \<and> store (hash (classic_response r)) = Some tx \<longrightarrow>
      useSwapTransactionStatus store swapResult = Some (tx_status tx)) \<and>
   (\<forall>r. swapResult = Some (ClassicSwapResult r) \<and> store (hash (classic_response r)) = None \<longrightarrow>
      useSwapTransactionStatus store swapResult = None) \<and>
   (\<forall>res. swapResult = Some res \<and> result_type res \<noteq> Classic \<longrightarrow>
      useSwapTransactionStatus store swapResult = None) \<and>
   (swapResult = None \<longrightarrow> useSwapTransactionStatus store swapResult = None)"
proof -
  have a: "\<forall>r tx. swapResult = Some (ClassicSwapResult r) \<and>
             store (hash (classic_response r)) = Some tx \<longrightarrow>
      useSwapTransactionStatus store swapResult = Some (tx_status tx)"
    by (simp add: useSwapTransactionStatus_def useTransaction_def)
  have b: "\<forall>r. swapResult = Some (ClassicSwapResult r) \<and>
             store (hash (classic_response r)) = None \<longrightarrow>
      useSwapTransactionStatus store swapResult = None"
    by (simp add: useSwapTransactionStatus_def useTransaction_def)
  have c: "\<forall>res. swapResult = Some res \<and> result_type res \<noteq> Classic \<longrightarrow>
      useSwapTransactionStatus store swapResult = None"
  proof (intro allI impI)
    fix res
    assume h: "swapResult = Some res \<and> result_type res \<noteq> Classic"
    then obtain r where "res = UniswapXSwapResult r"
      by (cases res) auto
    with h show "useSwapTransactionStatus store swapResult = None"
      by (simp add: useSwapTransactionStatus_def useTransaction_def)
  qed
  have d: "swapResult = None \<longrightarrow> useSwapTransactionStatus store swapResult = None"
    by (simp add: useSwapTransactionStatus_def useTransaction_def)
  from a b c d show ?thesis by blast
qed

theorem useSwapTransactionStatus_classic_only_witness:
  "useSwapTransactionStatus example_store (Some (ClassicSwapResult example_classic_result)) =
     Some Success \<and>
   useSwapTransactionStatus Map.empty (Some (ClassicSwapResult example_classic_result)) = None \<and>
   useSwapTransactionStatus example_store (Some (UniswapXSwapResult example_uniswapx_result)) = None"
proof -
  have a: "useSwapTransactionStatus example_store (Some (ClassicSwapResult example_classic_result)) =
     Some Success"
    using useSwapTransactionStatus_classic_only
      [of "Some (ClassicSwapResult example_classic_result)" example_store]
    by (simp add: example_store_def example_classic_result_def)
  have b: "useSwapTransactionStatus Map.empty (Some (ClassicSwapResult example_classic_result)) = None"
    using useSwapTransactionStatus_classic_only
      [of "Some (ClassicSwapResult example_classic_result)" Map.empty]
    by simp
  have c: "useSwapTransactionStatus example_store (Some (UniswapXSwapResult example_uniswapx_result)) = None"
    using useSwapTransactionStatus_classic_only
      [of "Some (UniswapXSwapResult example_uniswapx_result)" example_store]
    by (simp add: example_uniswapx_result_def)
  from a b c show ?thesis by blast
qed

section \<open>Properties of the provider cache\<close>

lemma clientToProvider_keeps:
  assumes "providers st r = Some p"
  shows "providers (snd (clientToProvider check ca k st)) r = Some p"
  using assms
  by (auto simp: clientToProvider_def Let_def split: option.splits)

lemma run_calls_keeps:
  "providers st r = Some p \<Longrightarrow> providers (run_calls check calls st) r = Some p"
proof (induction calls arbitrary: st)
  case Nil
  then show ?case by simp
next
  case (Cons call calls)
  obtain ca k where call: "call = (ca, k)" by (cases call)
  from Cons.prems have "providers (snd (clientToProvider check ca k st)) r = Some p"
    by (rule clientToProvider_keeps)
  then show ?case
    using Cons.IH call by simp
qed

lemma clientToProvider_stores:
  assumes "clientToProvider check (Some c) k st = (Inr (Some p), st1)"
  shows "providers st1 (client_ref c) = Some p"
  using assms
  by (auto simp: clientToProvider_def Let_def split: option.splits if_splits)

lemma clientToProvider_cached:
  assumes "providers st (client_ref c) = Some p" and "network_of c k \<noteq> None"
  shows "clientToProvider check (Some c) k st = (Inr (Some p), st)"
  using assms
  by (auto simp: clientToProvider_def split: option.splits)

text \<open>
  Claim C10, as amended. \<^verbatim>\<open>clientToProvider\<close> returns \<^verbatim>\<open>undefined\<close> exactly when no client
  is given or when neither the client's chain nor the \<^verbatim>\<open>chainId\<close> argument yields a
  network. Otherwise a client that has a cached provider gets that provider, and nothing
  is constructed; a client that has none gets a newly constructed provider, which is
  cached, unless the constructor rejects the network: then the call throws and caches
  nothing. Once a call for a client has returned a provider, every later call for that
  client that has a network returns that same provider and leaves the cache as it is,
  whatever calls were made in between.
\<close>

theorem clientToProvider_memoized:
  "clientToProvider check None k st = (Inr None, st) \<and>
   (fst (clientToProvider check (Some c) k st) = Inr None \<longleftrightarrow> network_of c k = None) \<and>
   (network_of c k = None \<longleftrightarrow> viem_chain c = None \<and> falsy_number k) \<and>
   (\<forall>net p. network_of c k = Some net \<and> providers st (client_ref c) = Some p \<longrightarrow>
      clientToProvider check (Some c) k st = (Inr (Some p), st)) \<and>
   (\<forall>net e. network_of c k = Some net \<and> providers st (client_ref c) = None \<and>
           check (viem_transport c) net = Some e \<longrightarrow>
      clientToProvider check (Some c) k st = (Inl e, st)) \<and>
   (\<forall>net. network_of c k = Some net \<and> providers st (client_ref c) = None \<and>
         check (viem_transport c) net = None \<longrightarrow>
      clientToProvider check (Some c) k st =
        (Inr (Some \<lparr>provider_ref = constructed st, provider_transport = viem_transport c,
                    provider_network = net\<rparr>),
         \<lparr>providers = (providers st)(client_ref c \<mapsto>
              \<lparr>provider_ref = constructed st, provider_transport = viem_transport c,
               provider_network = net\<rparr>),
          constructed = Suc (constructed st)\<rparr>)) \<and>
   (\<forall>p st1 k' calls.
      clientToProvider check (Some c) k st = (Inr (Some p), st1) \<and> network_of c k' \<noteq> None \<longrightarrow>
        clientToProvider check (Some c) k' (run_calls check calls st1) =
          (Inr (Some p), run_calls check calls st1))"
proof -
  have a: "clientToProvider check None k st = (Inr None, st)"
    by (simp add: clientToProvider_def)
  have b: "fst (clientToProvider check (Some c) k st) = Inr None \<longleftrightarrow> network_of c k = None"
    by (auto simp: clientToProvider_def Let_def split: option.splits)
  have n: "network_of c k = None \<longleftrightarrow> viem_chain c = None \<and> falsy_number k"
    by (simp add: network_of_def split: option.splits)
  have h: "\<forall>net p. network_of c k = Some net \<and> providers st (client_ref c) = Some p \<longrightarrow>
      clientToProvider check (Some c) k st = (Inr (Some p), st)"
    by (simp add: clientToProvider_def)
  have t: "\<forall>net e. network_of c k = Some net \<and> providers st (client_ref c) = None \<and>
           check (viem_transport c) net = Some e \<longrightarrow>
      clientToProvider check (Some c) k st = (Inl e, st)"
    by (simp add: clientToProvider_def)
  have m: "\<forall>net. network_of c k = Some net \<and> providers st (client_ref c) = None \<and>
         check (viem_transport c) net = None \<longrightarrow>
      clientToProvider check (Some c) k st =
        (Inr (Some \<lparr>provider_ref = constructed st, provider_transport = viem_transport c,
                    provider_network = net\<rparr>),
         \<lparr>providers = (providers st)(client_ref c \<mapsto>
              \<lparr>provider_ref = constructed st, provider_transport = viem_transport c,
               provider_network = net\<rparr>),
          constructed = Suc (constructed st)\<rparr>)"
    by (simp add: clientToProvider_def Let_def)
  have d: "\<forall>p st1 k' calls.
      clientToProvider check (Some c) k st = (Inr (Some p), st1) \<and> network_of c k' \<noteq> None \<longrightarrow>
        clientToProvider check (Some c) k' (run_calls check calls st1) =
          (Inr (Some p), run_calls check calls st1)"
  proof (intro allI impI)
    fix p st1 k' calls
    assume g: "clientToProvider check (Some c) k st = (Inr (Some p), st1) \<and>
        network_of c k' \<noteq> None"
    then have "providers st1 (client_ref c) = Some p"
      using clientToProvider_stores by blast
    then have "providers (run_calls check calls st1) (client_ref c) = Some p"
      by (rule run_calls_keeps)
    with g show "clientToProvider check (Some c) k' (run_calls check calls st1) =
        (Inr (Some p), run_calls check calls st1)"
      using clientToProvider_cached by blast
  qed
  from a b n h t m d show ?thesis by blast
qed

theorem clientToProvider_memoized_witness:
  "fst (clientToProvider homestead_check (Some example_client) None empty_providers) = Inr None \<and>
   clientToProvider homestead_check (Some example_client) (Some 1) empty_providers =
     (Inr (Some \<lparr>provider_ref = 0, provider_transport = ''custom'',
            provider_network = \<lparr>network_chainId = 1, network_name = ''Unsupported'',
                                 ensAddress = None\<rparr>\<rparr>),
      \<lparr>providers = [3 \<mapsto> \<lparr>provider_ref = 0, provider_transport = ''custom'',
            provider_network = \<lparr>network_chainId = 1, network_name = ''Unsupported'',
                                 ensAddress = None\<rparr>\<rparr>],
       constructed = 1\<rparr>) \<and>
   fst (clientToProvider homestead_check (Some example_client) (Some 5)
         (run_calls homestead_check [(Some (example_client\<lparr>client_ref := 4\<rparr>), Some 1)]
            (snd (clientToProvider homestead_check (Some example_client) (Some 1)
                    empty_providers)))) =
     Inr (Some \<lparr>provider_ref = 0, provider_transport = ''custom'',
           provider_network = \<lparr>network_chainId = 1, network_name = ''Unsupported'',
                                ensAddress = None\<rparr>\<rparr>)"
proof -
  let ?p = "\<lparr>provider_ref = 0, provider_transport = ''custom'',
            provider_network = \<lparr>network_chainId = 1, network_name = ''Unsupported'',
                                 ensAddress = None\<rparr>\<rparr>"
  let ?st1 = "\<lparr>providers = [3 \<mapsto> ?p], constructed = 1\<rparr>"
  let ?calls = "[(Some (example_client\<lparr>client_ref := 4\<rparr>), Some 1)]"
  have n0: "network_of example_client None = None"
    by (simp add: network_of_def example_client_def falsy_number_def)
  have n5: "network_of example_client (Some 5) \<noteq> None"
    by (simp add: network_of_def example_client_def falsy_number_def)
  have first: "clientToProvider homestead_check (Some example_client) (Some 1) empty_providers =
      (Inr (Some ?p), ?st1)"
    by (simp add: clientToProvider_def network_of_def example_client_def falsy_number_def
        number_value_def empty_providers_def homestead_check_def Let_def)
  have a: "fst (clientToProvider homestead_check (Some example_client) None empty_providers) =
      Inr None"
    using n0 clientToProvider_memoized [of homestead_check None empty_providers example_client]
    by simp
  note memo = clientToProvider_memoized [of homestead_check "Some 1" empty_providers example_client]
  from memo have "\<forall>p st1 k' calls.
      clientToProvider homestead_check (Some example_client) (Some 1) empty_providers =
        (Inr (Some p), st1) \<and>
      network_of example_client k' \<noteq> None \<longrightarrow>
        clientToProvider homestead_check (Some example_client) k'
            (run_calls homestead_check calls st1) =
          (Inr (Some p), run_calls homestead_check calls st1)"
    by (elim conjE)
  with first n5
  have "clientToProvider homestead_check (Some example_client) (Some 5)
          (run_calls homestead_check ?calls ?st1) =
      (Inr (Some ?p), run_calls homestead_check ?calls ?st1)"
    by blast
  then have b: "fst (clientToProvider homestead_check (Some example_client) (Some 5)
         (run_calls homestead_check ?calls
            (snd (clientToProvider homestead_check (Some example_client) (Some 1)
                    empty_providers)))) = Inr (Some ?p)"
    by (simp only: first snd_conv fst_conv)
  from a first b show ?thesis by blast
qed

text \<open>
  A client whose chain carries the name \<^verbatim>\<open>homestead\<close> with chain 5 has a network, but the
  constructor rejects it: the call throws, returns no provider and caches nothing.
\<close>

theorem clientToProvider_rejected_network_counterexample:
  "network_of clash_client None =
     Some \<lparr>network_chainId = 5, network_name = ''homestead'', ensAddress = None\<rparr> \<and>
   clientToProvider homestead_check (Some clash_client) None empty_providers =
     (Inl (Error ''network chainId mismatch''), empty_providers)"
  by (simp add: clientToProvider_def network_of_def clash_client_def homestead_check_def
      empty_providers_def)

end
